theory Spec2Isabelle
  imports Main "HOL-Library.Word" "HOL-Library.AList" "HOL-Library.Char_ord"
    "HOL-Library.List_Lexorder"
begin

unbundle bit_operations_syntax

section \<open>Go base types and the standard-library boundary\<close>

text \<open>
  The client is a thin layer over Go's standard library.  The library's values are modelled
  as follows.
  \<^item> A Go \<open>string\<close> is a byte sequence: \<^typ>\<open>string\<close> (a list of 8-bit characters).
  \<^item> A Go \<open>int\<close> is modelled by \<^typ>\<open>int\<close>; the client only compares and prints such
    values, so no wrap-around is involved.
  \<^item> A \<open>float64\<close> is its IEEE 754 bit pattern (\<open>math.Float64bits\<close>).  The client never
    computes with floats; the only property it depends on is whether the JSON encoder
    accepts the value.
  \<^item> A \<open>time.Time\<close> is the instant it denotes: the seconds since January 1, year 1,
    00:00:00 UTC, the nanoseconds within that second, and the name of its location.
  \<^item> An error value produced by the library is a \<open>lib_error\<close>.
\<close>

type_synonym float64 = "64 word"

record Time =
  sec :: int
  nsec :: int
  loc :: string

text \<open>\<open>func (t Time) IsZero() bool { return t.sec() == 0 && t.nsec() == 0 }\<close>\<close>

definition Time_IsZero :: "Time \<Rightarrow> bool" where
  "Time_IsZero t = (sec t = 0 \<and> nsec t = 0)"

text \<open>The zero value of \<open>time.Time\<close> (all fields zero).\<close>

definition Time_zero :: Time where
  "Time_zero = \<lparr>sec = 0, nsec = 0, loc = ''''\<rparr>"

datatype lib_error =
    UnsupportedValueError float64
  | LibraryError string

section \<open>Wire types\<close>

subsection \<open>Constants\<close>

definition StatusNew :: string where "StatusNew = ''new''"
definition StatusPending :: string where "StatusPending = ''pending''"
definition StatusCompleted :: string where "StatusCompleted = ''completed''"
definition StatusExpired :: string where "StatusExpired = ''expired''"
definition StatusCancelled :: string where "StatusCancelled = ''cancelled''"
definition StatusPaidPartial :: string where "StatusPaidPartial = ''paid_partial''"

definition SortOrderAsc :: string where "SortOrderAsc = ''asc''"
definition SortOrderDesc :: string where "SortOrderDesc = ''desc''"

definition SortByCreatedAt :: string where "SortByCreatedAt = ''created_at''"
definition SortByUpdatedAt :: string where "SortByUpdatedAt = ''updated_at''"
definition SortByFiatAmount :: string where "SortByFiatAmount = ''fiat_amount''"
definition SortByCryptoAmount :: string where "SortByCryptoAmount = ''crypto_amount''"

subsection \<open>Request and response structs\<close>

text \<open>
  A pointer field (\<open>*float64\<close>, \<open>*int\<close>, \<open>*int64\<close>, \<open>*BlockchainDetails\<close>) is an
  \<open>option\<close>: \<open>None\<close> is \<open>nil\<close>.  Several structs share field names; the later record
  shadows the plain name, and the earlier one is written with its record's name in front.
\<close>

record CreateInvoiceRequest =
  OrderID :: string
  FiatAmount :: "float64 option"
  FiatCurrency :: string
  CryptoAmount :: "float64 option"
  Currency :: string
  AllowedErrorPercent :: "int option"
  OrderName :: string
  ExpireMin :: "int option"
  CallbackURL :: string

record UpdateInvoiceRequest =
  Status :: string

record ListInvoicesParams =
  Page :: int
  PageSize :: int
  Status :: string
  Currency :: string
  CreatedAfter :: Time
  CreatedBefore :: Time
  SortBy :: string
  SortOrder :: string

record WebhookSimulateRequest =
  InvoiceID :: string
  Status :: string

record BlockchainNetwork =
  Name :: string
  Type :: string

record BlockchainDetails =
  WalletID :: string
  AccountID :: string
  Currency :: string
  BlockchainAddress :: string
  BlockchainNetwork :: "BlockchainNetwork option"
  QRCode :: string

record Invoice =
  InvoiceID :: string
  UserID :: string
  ProjectID :: string
  OrderID :: string
  FiatAmount :: float64
  FiatCurrency :: string
  Currency :: string
  CryptoAmount :: float64
  CryptoAmountInUnits :: "int option"
  ActualCryptoAmountPaid :: float64
  ActualCryptoAmountPaidInUnits :: int
  AllowedErrorPercent :: int
  OrderName :: string
  ExpireMin :: int
  CallbackURL :: string
  Status :: string
  CreatedAt :: Time
  UpdatedAt :: Time
  ExpiresAt :: Time
  BlockchainDetails :: "BlockchainDetails option"

record PaginationInfo =
  CurrentPage :: int
  PageSize :: int
  TotalPages :: int
  TotalRecords :: int
  HasNext :: bool
  HasPrevious :: bool

record ListInvoicesResponse =
  Data :: "Invoice list"
  Pagination :: PaginationInfo

record Currency =
  CurrencyCode :: string
  IsCrypto :: bool
  Precision :: int
  IsActive :: bool
  WalletPattern :: string
  Network :: string
  CreatedAt :: Time

record CurrenciesResponse =
  Currencies :: "Currency list"

record RatesResponse =
  Rates :: "string \<rightharpoonup> float64"

record WebhookSimulateResponse =
  Status :: string
  Message :: string

record ErrorResponse =
  Error :: string
  Message :: string

record APIError =
  StatusCode :: int
  ErrorType :: string
  Message :: string

text \<open>
  \<open>func (e *APIError) Error() string\<close>: the message when there is one, else the error
  type.
\<close>

definition APIError_Error :: "APIError \<Rightarrow> string" where
  "APIError_Error e =
     (if APIError.Message e \<noteq> '''' then APIError.Message e else ErrorType e)"

section \<open>\<open>fmt\<close>: decimal rendering\<close>

text \<open>\<open>fmt.Sprintf("%d", n)\<close>: the decimal digits of \<open>n\<close>, with a minus sign below zero.\<close>

fun decimal :: "nat \<Rightarrow> string" where
  "decimal n =
     (if n < 10 then [''0123456789'' ! n]
      else decimal (n div 10) @ [''0123456789'' ! (n mod 10)])"

declare decimal.simps [simp del]

definition fmt_d :: "int \<Rightarrow> string" where
  "fmt_d n = (if n < 0 then ''-'' @ decimal (nat (- n)) else decimal (nat n))"

section \<open>\<open>net/url\<close>: escaping and query values\<close>

text \<open>
  \<open>url.Values\<close> is \<open>map[string][]string\<close>.  It is modelled as an association list with
  distinct keys; \<open>Set\<close> replaces the values of a key.  \<open>Encode\<close> walks the keys in sorted
  order (\<open>slices.Sort(keys)\<close>, bytewise comparison), so the position of a key in the list
  has no influence on the result.
\<close>

datatype encoding = encodePathSegment | encodeQueryComponent

definition isAlnum :: "char \<Rightarrow> bool" where
  "isAlnum c =
     ((CHR ''a'' \<le> c \<and> c \<le> CHR ''z'') \<or> (CHR ''A'' \<le> c \<and> c \<le> CHR ''Z'') \<or>
      (CHR ''0'' \<le> c \<and> c \<le> CHR ''9''))"

text \<open>
  \<open>shouldEscape\<close> of \<open>net/url\<close>, for the two modes used here: unreserved characters are
  never escaped, the reserved ones depend on the mode, everything else is escaped.
\<close>

definition shouldEscape :: "char \<Rightarrow> encoding \<Rightarrow> bool" where
  "shouldEscape c mode =
     (if isAlnum c then False
      else if c \<in> set ''-_.~'' then False
      else if c \<in> set ''$&+,/:;=?@'' then
        (case mode of
           encodePathSegment \<Rightarrow> c = CHR ''/'' \<or> c = CHR '';'' \<or> c = CHR '','' \<or> c = CHR ''?''
         | encodeQueryComponent \<Rightarrow> True)
      else True)"

definition upperhex :: string where
  "upperhex = ''0123456789ABCDEF''"

definition escape_char :: "encoding \<Rightarrow> char \<Rightarrow> string" where
  "escape_char mode c =
     (if shouldEscape c mode then
        (if c = CHR '' '' \<and> mode = encodeQueryComponent then ''+''
         else [CHR ''%'', upperhex ! (of_char c div 16), upperhex ! (of_char c mod 16)])
      else [c])"

definition escape :: "string \<Rightarrow> encoding \<Rightarrow> string" where
  "escape s mode = concat (map (escape_char mode) s)"

definition QueryEscape :: "string \<Rightarrow> string" where
  "QueryEscape s = escape s encodeQueryComponent"

definition PathEscape :: "string \<Rightarrow> string" where
  "PathEscape s = escape s encodePathSegment"

type_synonym Values = "(string \<times> string list) list"

definition Values_Set :: "string \<Rightarrow> string \<Rightarrow> Values \<Rightarrow> Values" where
  "Values_Set key val v = AList.update key [val] v"

fun join :: "string \<Rightarrow> string list \<Rightarrow> string" where
  "join sep [] = ''''"
| "join sep [x] = x"
| "join sep (x # y # ys) = x @ sep @ join sep (y # ys)"

definition Values_Encode :: "Values \<Rightarrow> string" where
  "Values_Encode v =
     (if length v = 0 then ''''
      else join ''&''
        (concat (map (\<lambda>(k, vs). map (\<lambda>x. QueryEscape k @ ''='' @ QueryEscape x) vs)
                     (sort_key fst v))))"

section \<open>\<open>encoding/json\<close>: what the struct tags make the encoder emit\<close>

text \<open>
  The encoder is modelled in two steps.  The first step, fixed by the struct tags of the
  source, turns a struct into the JSON document the encoder emits: the members in field
  order, a member tagged \<open>omitempty\<close> left out when the field is empty (a nil pointer, an
  empty string).  The second step, the library's rendering of a document into bytes, is a
  parameter of the model.  A float that is NaN or infinite makes the encoder fail with an
  \<open>UnsupportedValueError\<close>.
\<close>

datatype json =
    JNull
  | JBool bool
  | JInt int
  | JFloat float64
  | JString string
  | JArray "json list"
  | JObject "(string \<times> json) list"

text \<open>NaN and the infinities are the bit patterns whose exponent field is all ones.\<close>

definition float64_IsInf_or_IsNaN :: "float64 \<Rightarrow> bool" where
  "float64_IsInf_or_IsNaN f = (drop_bit 52 f AND 0x7FF = 0x7FF)"

type_synonym members = "(string \<times> json) list"

definition member_string :: "string \<Rightarrow> string \<Rightarrow> lib_error + members" where
  "member_string key s = Inr [(key, JString s)]"

definition member_string_omitempty :: "string \<Rightarrow> string \<Rightarrow> lib_error + members" where
  "member_string_omitempty key s = Inr (if s = '''' then [] else [(key, JString s)])"

definition member_int_ptr_omitempty :: "string \<Rightarrow> int option \<Rightarrow> lib_error + members" where
  "member_int_ptr_omitempty key p =
     Inr (case p of None \<Rightarrow> [] | Some n \<Rightarrow> [(key, JInt n)])"

definition member_float_ptr_omitempty :: "string \<Rightarrow> float64 option \<Rightarrow> lib_error + members" where
  "member_float_ptr_omitempty key p =
     (case p of
        None \<Rightarrow> Inr []
      | Some f \<Rightarrow>
          if float64_IsInf_or_IsNaN f then Inl (UnsupportedValueError f)
          else Inr [(key, JFloat f)])"

text \<open>The fields are encoded in order; the first failure ends the encoding.\<close>

fun struct_members :: "(lib_error + members) list \<Rightarrow> lib_error + members" where
  "struct_members [] = Inr []"
| "struct_members (Inl e # fs) = Inl e"
| "struct_members (Inr ms # fs) =
     (case struct_members fs of Inl e \<Rightarrow> Inl e | Inr ms' \<Rightarrow> Inr (ms @ ms'))"

definition members_CreateInvoiceRequest :: "CreateInvoiceRequest \<Rightarrow> lib_error + members" where
  "members_CreateInvoiceRequest r = struct_members
     [member_string ''order_id'' (CreateInvoiceRequest.OrderID r),
      member_float_ptr_omitempty ''fiat_amount'' (CreateInvoiceRequest.FiatAmount r),
      member_string_omitempty ''fiat_currency'' (CreateInvoiceRequest.FiatCurrency r),
      member_float_ptr_omitempty ''crypto_amount'' (CreateInvoiceRequest.CryptoAmount r),
      member_string ''currency'' (CreateInvoiceRequest.Currency r),
      member_int_ptr_omitempty ''allowed_error_percent''
        (CreateInvoiceRequest.AllowedErrorPercent r),
      member_string_omitempty ''order_name'' (CreateInvoiceRequest.OrderName r),
      member_int_ptr_omitempty ''expire_min'' (CreateInvoiceRequest.ExpireMin r),
      member_string_omitempty ''callback_url'' (CreateInvoiceRequest.CallbackURL r)]"

definition members_UpdateInvoiceRequest :: "UpdateInvoiceRequest \<Rightarrow> lib_error + members" where
  "members_UpdateInvoiceRequest r = struct_members
     [member_string ''status'' (UpdateInvoiceRequest.Status r)]"

definition members_WebhookSimulateRequest :: "WebhookSimulateRequest \<Rightarrow> lib_error + members" where
  "members_WebhookSimulateRequest r = struct_members
     [member_string ''invoice_id'' (WebhookSimulateRequest.InvoiceID r),
      member_string ''status'' (WebhookSimulateRequest.Status r)]"

text \<open>
  The \<open>body interface{}\<close> argument of \<open>doRequest\<close> holds one of the three request structs
  of the package.
\<close>

datatype payload =
    Body_CreateInvoiceRequest CreateInvoiceRequest
  | Body_UpdateInvoiceRequest UpdateInvoiceRequest
  | Body_WebhookSimulateRequest WebhookSimulateRequest

fun payload_members :: "payload \<Rightarrow> lib_error + members" where
  "payload_members (Body_CreateInvoiceRequest r) = members_CreateInvoiceRequest r"
| "payload_members (Body_UpdateInvoiceRequest r) = members_UpdateInvoiceRequest r"
| "payload_members (Body_WebhookSimulateRequest r) = members_WebhookSimulateRequest r"

section \<open>The environment: library functions and the network\<close>

record Request =
  Method :: string
  URL :: string
  Header :: "(string \<times> string list) list"
  Body :: "string option"

record Response =
  StatusCode :: int
  Body :: "lib_error + string"

text \<open>
  Everything the client obtains from outside its own code is a field of the environment:
  \<^item> \<open>json_render\<close>, \<open>json_render_indent\<close>: the bytes \<open>json.Marshal\<close> and
    \<open>json.MarshalIndent(v, "", "  ")\<close> write for a document;
  \<^item> \<open>json_Unmarshal_T\<close>: \<open>json.Unmarshal\<close> of a byte sequence into a zero value of
    type \<open>T\<close>, an error or the decoded value;
  \<^item> \<open>http_request_error\<close>: the check of method and URL by
    \<open>http.NewRequestWithContext\<close>;
  \<^item> \<open>http_Do\<close>: the round trip of \<open>httpClient.Do\<close>, which includes the caller's
    context (a cancelled or expired context is a transport error); the \<open>Body\<close> of the
    response is the outcome of \<open>io.ReadAll\<close> on it;
  \<^item> \<open>Time_Format_RFC3339\<close>: \<open>t.Format(time.RFC3339)\<close>.
\<close>

record env =
  json_render :: "json \<Rightarrow> string"
  json_render_indent :: "json \<Rightarrow> string"
  json_Unmarshal_ErrorResponse :: "string \<Rightarrow> lib_error + ErrorResponse"
  json_Unmarshal_Invoice :: "string \<Rightarrow> lib_error + Invoice"
  json_Unmarshal_ListInvoicesResponse :: "string \<Rightarrow> lib_error + ListInvoicesResponse"
  json_Unmarshal_Currencies :: "string \<Rightarrow> lib_error + Currency list"
  json_Unmarshal_RatesResponse :: "string \<Rightarrow> lib_error + RatesResponse"
  json_Unmarshal_WebhookSimulateResponse :: "string \<Rightarrow> lib_error + WebhookSimulateResponse"
  http_request_error :: "string \<Rightarrow> string \<Rightarrow> lib_error option"
  http_Do :: "Request \<Rightarrow> lib_error + Response"
  Time_Format_RFC3339 :: "Time \<Rightarrow> string"

definition json_Marshal :: "env \<Rightarrow> payload \<Rightarrow> lib_error + string" where
  "json_Marshal E v =
     (case payload_members v of
        Inl e \<Rightarrow> Inl e
      | Inr ms \<Rightarrow> Inr (json_render E (JObject ms)))"

definition json_MarshalIndent :: "env \<Rightarrow> payload \<Rightarrow> lib_error + string" where
  "json_MarshalIndent E v =
     (case payload_members v of
        Inl e \<Rightarrow> Inl e
      | Inr ms \<Rightarrow> Inr (json_render_indent E (JObject ms)))"

definition http_NewRequestWithContext ::
  "env \<Rightarrow> string \<Rightarrow> string \<Rightarrow> string option \<Rightarrow> lib_error + Request" where
  "http_NewRequestWithContext E method url body =
     (case http_request_error E method url of
        Some e \<Rightarrow> Inl e
      | None \<Rightarrow> Inr \<lparr>Method = method, URL = url, Header = [], Request.Body = body\<rparr>)"

text \<open>
  \<open>req.Header.Set(key, value)\<close>.  The header names are kept as the source writes them;
  \<open>net/http\<close> stores them in canonical form (\<open>Api-Key\<close> for \<open>Api-key\<close>).
\<close>

definition Header_Set :: "string \<Rightarrow> string \<Rightarrow> Request \<Rightarrow> Request" where
  "Header_Set key val req = req\<lparr>Header := AList.update key [val] (Header req)\<rparr>"

section \<open>The client\<close>

definition DefaultBaseURL :: string where
  "DefaultBaseURL = ''https://api.itispay.com/api/v1''"

text \<open>\<open>30 * time.Second\<close>, a \<open>time.Duration\<close> in nanoseconds.\<close>

definition DefaultTimeout :: int where
  "DefaultTimeout = 30 * 1000000000"

record http_Client =
  Timeout :: int

record Client =
  baseURL :: string
  apiKey :: string
  httpClient :: http_Client

definition NewClient :: "string \<Rightarrow> Client" where
  "NewClient key =
     \<lparr>baseURL = DefaultBaseURL, apiKey = key, httpClient = \<lparr>Timeout = DefaultTimeout\<rparr>\<rparr>"

subsection \<open>Errors and effects\<close>

text \<open>
  The errors the package returns, as the code builds them:
  \<^item> \<open>Wrapf prefix cause\<close> is \<open>fmt.Errorf(prefix + "%w", cause)\<close>, an error that wraps a
    library error;
  \<^item> \<open>Errorf text\<close> is \<open>fmt.Errorf\<close> without \<open>%w\<close>, an error that is only its text;
  \<^item> \<open>APIErr e\<close> is \<open>&APIError{...}\<close>, the one error a caller can take apart with
    \<open>err.(*APIError)\<close>.
\<close>

datatype error =
    Wrapf string lib_error
  | Errorf string
  | APIErr APIError

text \<open>
  The effects of a call that can be observed from outside, in the order they happen: a
  write to standard output, and a request handed to the HTTP transport.
\<close>

datatype event =
    Stdout string
  | RoundTrip Request

subsection \<open>\<open>doRequest\<close>\<close>

text \<open>
  The result of \<open>doRequest\<close> is paired with the trace of its effects: empty when the call
  returns before \<open>httpClient.Do\<close>, the one request handed to the transport otherwise.
\<close>

definition doRequest ::
  "env \<Rightarrow> Client \<Rightarrow> string \<Rightarrow> string \<Rightarrow> payload option \<Rightarrow> (error + string) \<times> event list" where
  "doRequest E c method path body =
     (case (case body of
              None \<Rightarrow> Inr None
            | Some b \<Rightarrow>
                (case json_Marshal E b of
                   Inl err \<Rightarrow> Inl err
                 | Inr jsonBody \<Rightarrow> Inr (Some jsonBody))) of
        Inl err \<Rightarrow> (Inl (Wrapf ''failed to marshal request body: '' err), [])
      | Inr reqBody \<Rightarrow>
          (case http_NewRequestWithContext E method (baseURL c @ path) reqBody of
             Inl err \<Rightarrow> (Inl (Wrapf ''failed to create request: '' err), [])
           | Inr req0 \<Rightarrow>
               (let req1 = Header_Set ''Content-Type'' ''application/json'' req0;
                    req = (if apiKey c \<noteq> '''' then Header_Set ''Api-key'' (apiKey c) req1
                           else req1)
                in (case http_Do E req of
                      Inl err \<Rightarrow> Inl (Wrapf ''failed to execute request: '' err)
                    | Inr resp \<Rightarrow>
                        (case Response.Body resp of
                           Inl err \<Rightarrow> Inl (Wrapf ''failed to read response body: '' err)
                         | Inr respBody \<Rightarrow>
                             if Response.StatusCode resp \<ge> 400 then
                               (case json_Unmarshal_ErrorResponse E respBody of
                                  Inl err \<Rightarrow>
                                    Inl (Errorf (''HTTP '' @ fmt_d (Response.StatusCode resp)
                                                 @ '': '' @ respBody))
                                | Inr apiError \<Rightarrow>
                                    Inl (APIErr
                                      \<lparr>APIError.StatusCode = Response.StatusCode resp,
                                       ErrorType = Error apiError,
                                       APIError.Message = ErrorResponse.Message apiError\<rparr>))
                             else Inr respBody),
                    [RoundTrip req]))))"

subsection \<open>Endpoint methods\<close>

text \<open>
  Every endpoint method passes the error of \<open>doRequest\<close> on unchanged, and otherwise decodes
  the body into its own result type.
\<close>

definition decode_response ::
  "(string \<Rightarrow> lib_error + 'a) \<Rightarrow> string \<Rightarrow> (error + string) \<times> event list
    \<Rightarrow> (error + 'a) \<times> event list" where
  "decode_response unmarshal prefix r =
     (case r of
        (Inl err, evs) \<Rightarrow> (Inl err, evs)
      | (Inr respBody, evs) \<Rightarrow>
          (case unmarshal respBody of
             Inl err \<Rightarrow> (Inl (Wrapf prefix err), evs)
           | Inr v \<Rightarrow> (Inr v, evs)))"

definition CreateInvoice ::
  "env \<Rightarrow> Client \<Rightarrow> CreateInvoiceRequest \<Rightarrow> (error + Invoice) \<times> event list" where
  "CreateInvoice E c req =
     (let reqJSON = (case json_MarshalIndent E (Body_CreateInvoiceRequest req) of
                       Inl err \<Rightarrow> ''''
                     | Inr b \<Rightarrow> b);
          out = Stdout (''DEBUG: Creating invoice with request:'' @ [CHR 0x0A] @ reqJSON
                        @ [CHR 0x0A]);
          (r, evs) = decode_response (json_Unmarshal_Invoice E)
                       ''failed to unmarshal invoice response: ''
                       (doRequest E c ''POST'' ''/invoices''
                          (Some (Body_CreateInvoiceRequest req)))
      in (r, out # evs))"

definition GetInvoice :: "env \<Rightarrow> Client \<Rightarrow> string \<Rightarrow> (error + Invoice) \<times> event list" where
  "GetInvoice E c invoiceID =
     decode_response (json_Unmarshal_Invoice E) ''failed to unmarshal invoice response: ''
       (doRequest E c ''GET'' (''/invoices/'' @ invoiceID) None)"

text \<open>
  \<open>ListInvoices\<close> in its three steps: the query values, set one after the other on an
  empty map; the path, with the encoded query behind \<open>?\<close> when there is any value; the
  request.
\<close>

definition ListInvoices_queryParams :: "env \<Rightarrow> ListInvoicesParams \<Rightarrow> Values" where
  "ListInvoices_queryParams E params =
     (let q = [];
          q = (if Page params > 0 then Values_Set ''page'' (fmt_d (Page params)) q else q);
          q = (if ListInvoicesParams.PageSize params > 0
               then Values_Set ''page_size'' (fmt_d (ListInvoicesParams.PageSize params)) q
               else q);
          q = (if ListInvoicesParams.Status params \<noteq> ''''
               then Values_Set ''status'' (ListInvoicesParams.Status params) q else q);
          q = (if ListInvoicesParams.Currency params \<noteq> ''''
               then Values_Set ''currency'' (ListInvoicesParams.Currency params) q else q);
          q = (if \<not> Time_IsZero (CreatedAfter params)
               then Values_Set ''created_after'' (Time_Format_RFC3339 E (CreatedAfter params)) q
               else q);
          q = (if \<not> Time_IsZero (CreatedBefore params)
               then Values_Set ''created_before'' (Time_Format_RFC3339 E (CreatedBefore params)) q
               else q);
          q = (if SortBy params \<noteq> '''' then Values_Set ''sort_by'' (SortBy params) q else q);
          q = (if SortOrder params \<noteq> '''' then Values_Set ''sort_order'' (SortOrder params) q
               else q)
      in q)"

definition ListInvoices_path :: "env \<Rightarrow> ListInvoicesParams \<Rightarrow> string" where
  "ListInvoices_path E params =
     (let queryParams = ListInvoices_queryParams E params;
          path = ''/invoices''
      in if length queryParams > 0 then path @ ''?'' @ Values_Encode queryParams else path)"

definition ListInvoices ::
  "env \<Rightarrow> Client \<Rightarrow> ListInvoicesParams \<Rightarrow> (error + ListInvoicesResponse) \<times> event list" where
  "ListInvoices E c params =
     decode_response (json_Unmarshal_ListInvoicesResponse E)
       ''failed to unmarshal invoices response: ''
       (doRequest E c ''GET'' (ListInvoices_path E params) None)"

definition GetCurrencies :: "env \<Rightarrow> Client \<Rightarrow> (error + CurrenciesResponse) \<times> event list" where
  "GetCurrencies E c =
     (case decode_response (json_Unmarshal_Currencies E)
             ''failed to unmarshal currencies response: ''
             (doRequest E c ''GET'' ''/currencies'' None) of
        (Inl err, evs) \<Rightarrow> (Inl err, evs)
      | (Inr currencies, evs) \<Rightarrow> (Inr \<lparr>Currencies = currencies\<rparr>, evs))"


definition UpdateInvoiceStatus ::
  "env \<Rightarrow> Client \<Rightarrow> string \<Rightarrow> string \<Rightarrow> (error + Invoice) \<times> event list" where
  "UpdateInvoiceStatus E c invoiceID status =
     (let req = \<lparr>UpdateInvoiceRequest.Status = status\<rparr>
      in decode_response (json_Unmarshal_Invoice E) ''failed to unmarshal invoice response: ''
           (doRequest E c ''PATCH'' (''/invoices/'' @ invoiceID)
              (Some (Body_UpdateInvoiceRequest req))))"


section \<open>Reference formulations\<close>

text \<open>The URLs of the requests that a call handed to the transport, in order.\<close>

fun requested_URLs :: "event list \<Rightarrow> string list" where
  "requested_URLs [] = []"
| "requested_URLs (RoundTrip req # evs) = URL req # requested_URLs evs"
| "requested_URLs (Stdout s # evs) = requested_URLs evs"

text \<open>
  The path of an invoice as the specification words it: the id path-escaped
  (\<open>url.PathEscape\<close>) behind \<open>/invoices/\<close>.
\<close>

definition spec_invoice_path :: "string \<Rightarrow> string" where
  "spec_invoice_path invoiceID = ''/invoices/'' @ PathEscape invoiceID"

text \<open>
  A query string written from a list of parameters, in the order of the list; and the path
  of \<open>ListInvoices\<close> for such a list.
\<close>

definition query_of :: "(string \<times> string) list \<Rightarrow> string" where
  "query_of items = join ''&'' (map (\<lambda>(k, x). k @ ''='' @ QueryEscape x) items)"

definition path_with_query :: "(string \<times> string) list \<Rightarrow> string" where
  "path_with_query items =
     (if items = [] then ''/invoices'' else ''/invoices?'' @ query_of items)"

definition param_int :: "string \<Rightarrow> int \<Rightarrow> (string \<times> string) list" where
  "param_int key n = (if n > 0 then [(key, fmt_d n)] else [])"

definition param_string :: "string \<Rightarrow> string \<Rightarrow> (string \<times> string) list" where
  "param_string key s = (if s \<noteq> '''' then [(key, s)] else [])"

definition param_time :: "env \<Rightarrow> string \<Rightarrow> Time \<Rightarrow> (string \<times> string) list" where
  "param_time E key t = (if \<not> Time_IsZero t then [(key, Time_Format_RFC3339 E t)] else [])"

text \<open>The non-default parameters in the precedence the specification lists.\<close>

definition spec_params_by_precedence ::
  "env \<Rightarrow> ListInvoicesParams \<Rightarrow> (string \<times> string) list" where
  "spec_params_by_precedence E p =
     param_int ''page'' (Page p) @
     param_int ''page_size'' (ListInvoicesParams.PageSize p) @
     param_string ''status'' (ListInvoicesParams.Status p) @
     param_string ''currency'' (ListInvoicesParams.Currency p) @
     param_time E ''created_after'' (CreatedAfter p) @
     param_time E ''created_before'' (CreatedBefore p) @
     param_string ''sort_by'' (SortBy p) @
     param_string ''sort_order'' (SortOrder p)"

text \<open>The same parameters in ascending order of their keys.\<close>

definition params_by_key :: "env \<Rightarrow> ListInvoicesParams \<Rightarrow> (string \<times> string) list" where
  "params_by_key E p =
     param_time E ''created_after'' (CreatedAfter p) @
     param_time E ''created_before'' (CreatedBefore p) @
     param_string ''currency'' (ListInvoicesParams.Currency p) @
     param_int ''page'' (Page p) @
     param_int ''page_size'' (ListInvoicesParams.PageSize p) @
     param_string ''sort_by'' (SortBy p) @
     param_string ''sort_order'' (SortOrder p) @
     param_string ''status'' (ListInvoicesParams.Status p)"

text \<open>The zero value \<open>ListInvoicesParams{}\<close>.\<close>

definition ListInvoicesParams_zero :: ListInvoicesParams where
  "ListInvoicesParams_zero =
     \<lparr>Page = 0, ListInvoicesParams.PageSize = 0, ListInvoicesParams.Status = '''',
      ListInvoicesParams.Currency = '''', CreatedAfter = Time_zero, CreatedBefore = Time_zero,
      SortBy = '''', SortOrder = ''''\<rparr>"

section \<open>An example environment\<close>

text \<open>
  A test double in the manner of an \<open>httptest\<close> server, for evaluating the client on
  concrete inputs: the server answers every request with one status and one body, every
  method and URL is accepted, and the library functions are given on the documents of the
  examples only (flat objects of scalars without characters to escape, the two floats 0
  and 100, the bodies below and \<open>{}\<close>); every other body is rejected as malformed.
\<close>

definition example_scalar :: "json \<Rightarrow> string" where
  \<open>example_scalar j =
     (case j of
        JNull \<Rightarrow> ''null''
      | JBool b \<Rightarrow> (if b then ''true'' else ''false'')
      | JInt n \<Rightarrow> fmt_d n
      | JFloat f \<Rightarrow> (if f = 0 then ''0'' else if f = 0x4059000000000000 then ''100''
                     else ''?'')
      | JString s \<Rightarrow> ''"'' @ s @ ''"''
      | JArray xs \<Rightarrow> ''?''
      | JObject ms \<Rightarrow> ''?'')\<close>

definition example_render :: "json \<Rightarrow> string" where
  \<open>example_render j =
     (case j of
        JObject ms \<Rightarrow>
          ''{'' @ join '','' (map (\<lambda>(k, x). ''"'' @ k @ ''":'' @ example_scalar x) ms) @ ''}''
      | _ \<Rightarrow> example_scalar j)\<close>

definition example_render_indent :: "json \<Rightarrow> string" where
  \<open>example_render_indent j =
     (case j of
        JObject ms \<Rightarrow>
          (if ms = [] then ''{}''
           else ''{'' @ [CHR 0x0A] @
                join ('','' @ [CHR 0x0A])
                  (map (\<lambda>(k, x). ''  "'' @ k @ ''": '' @ example_scalar x) ms)
                @ [CHR 0x0A] @ ''}'')
      | _ \<Rightarrow> example_scalar j)\<close>

definition invalid_key_body :: string where
  \<open>invalid_key_body = ''{"error":"invalid_key","message":"API key is invalid"}''\<close>

text \<open>
  The zero values that \<open>json.Unmarshal\<close> leaves untouched when the document is the empty
  object \<open>{}\<close>.
\<close>

definition Invoice_zero :: Invoice where
  "Invoice_zero =
     \<lparr>Invoice.InvoiceID = '''', UserID = '''', ProjectID = '''', Invoice.OrderID = '''',
      Invoice.FiatAmount = 0, Invoice.FiatCurrency = '''', Invoice.Currency = '''',
      Invoice.CryptoAmount = 0, CryptoAmountInUnits = None, ActualCryptoAmountPaid = 0,
      ActualCryptoAmountPaidInUnits = 0, Invoice.AllowedErrorPercent = 0,
      Invoice.OrderName = '''', Invoice.ExpireMin = 0, Invoice.CallbackURL = '''',
      Invoice.Status = '''', Invoice.CreatedAt = Time_zero, UpdatedAt = Time_zero,
      ExpiresAt = Time_zero, BlockchainDetails = None\<rparr>"

definition ListInvoicesResponse_zero :: ListInvoicesResponse where
  "ListInvoicesResponse_zero =
     \<lparr>Data = [],
      Pagination = \<lparr>CurrentPage = 0, PaginationInfo.PageSize = 0, TotalPages = 0,
                     TotalRecords = 0, HasNext = False, HasPrevious = False\<rparr>\<rparr>"

definition example_Unmarshal_object :: "'a \<Rightarrow> string \<Rightarrow> lib_error + 'a" where
  "example_Unmarshal_object zero b =
     (if b = ''{}'' then Inr zero else Inl (LibraryError ''invalid character''))"

definition example_Unmarshal_ErrorResponse :: "string \<Rightarrow> lib_error + ErrorResponse" where
  "example_Unmarshal_ErrorResponse b =
     (if b = invalid_key_body
      then Inr \<lparr>Error = ''invalid_key'', ErrorResponse.Message = ''API key is invalid''\<rparr>
      else example_Unmarshal_object \<lparr>Error = '''', ErrorResponse.Message = ''''\<rparr> b)"

definition currencies_body :: string where
  \<open>currencies_body =
     ''[{"currency_code":"BTC","is_crypto":true,"precision":8,"is_active":true,'' @
     ''"network":"bitcoin","created_at":"2024-01-01T00:00:00Z"},'' @
     ''{"currency_code":"EUR","is_crypto":false,"precision":2,"is_active":true,'' @
     ''"created_at":"2024-01-01T00:00:00Z"}]''\<close>

text \<open>2024-01-01T00:00:00Z: 738885 days after January 1 of year 1.\<close>

definition example_time :: Time where
  "example_time = \<lparr>sec = 738885 * 86400, nsec = 0, loc = ''UTC''\<rparr>"

definition currency_BTC :: Currency where
  "currency_BTC =
     \<lparr>CurrencyCode = ''BTC'', IsCrypto = True, Precision = 8, IsActive = True,
      WalletPattern = '''', Network = ''bitcoin'', Currency.CreatedAt = example_time\<rparr>"

definition currency_EUR :: Currency where
  "currency_EUR =
     \<lparr>CurrencyCode = ''EUR'', IsCrypto = False, Precision = 2, IsActive = True,
      WalletPattern = '''', Network = '''', Currency.CreatedAt = example_time\<rparr>"

definition example_Unmarshal_Currencies :: "string \<Rightarrow> lib_error + Currency list" where
  "example_Unmarshal_Currencies b =
     (if b = currencies_body then Inr [currency_BTC, currency_EUR]
      else if b = ''[]'' then Inr []
      else Inl (LibraryError ''invalid character''))"

definition example_Time_Format :: "Time \<Rightarrow> string" where
  "example_Time_Format t =
     (if t = example_time then ''2024-01-01T00:00:00Z'' else ''0001-01-01T00:00:00Z'')"

definition example_env :: "int \<Rightarrow> string \<Rightarrow> env" where
  "example_env status body =
     \<lparr>json_render = example_render,
      json_render_indent = example_render_indent,
      json_Unmarshal_ErrorResponse = example_Unmarshal_ErrorResponse,
      json_Unmarshal_Invoice = example_Unmarshal_object Invoice_zero,
      json_Unmarshal_ListInvoicesResponse = example_Unmarshal_object ListInvoicesResponse_zero,
      json_Unmarshal_Currencies = example_Unmarshal_Currencies,
      json_Unmarshal_RatesResponse = example_Unmarshal_object \<lparr>Rates = Map.empty\<rparr>,
      json_Unmarshal_WebhookSimulateResponse =
        example_Unmarshal_object
          \<lparr>WebhookSimulateResponse.Status = '''', WebhookSimulateResponse.Message = ''''\<rparr>,
      http_request_error = (\<lambda>method url. None),
      http_Do = (\<lambda>req. Inr \<lparr>Response.StatusCode = status, Response.Body = Inr body\<rparr>),
      Time_Format_RFC3339 = example_Time_Format\<rparr>"

definition example_client :: Client where
  "example_client = NewClient ''test-key''"

text \<open>A request whose fiat amount is NaN, and one that sets two optional fields only.\<close>

definition nan_request :: CreateInvoiceRequest where
  "nan_request =
     \<lparr>CreateInvoiceRequest.OrderID = ''ORDER-1'',
      CreateInvoiceRequest.FiatAmount = Some 0x7FF8000000000000,
      CreateInvoiceRequest.FiatCurrency = ''EUR'',
      CreateInvoiceRequest.CryptoAmount = None,
      CreateInvoiceRequest.Currency = ''BTC'',
      CreateInvoiceRequest.AllowedErrorPercent = None,
      CreateInvoiceRequest.OrderName = '''',
      CreateInvoiceRequest.ExpireMin = None,
      CreateInvoiceRequest.CallbackURL = ''''\<rparr>"

definition crypto_request :: CreateInvoiceRequest where
  "crypto_request =
     \<lparr>CreateInvoiceRequest.OrderID = ''ORDER-1'',
      CreateInvoiceRequest.FiatAmount = None,
      CreateInvoiceRequest.FiatCurrency = '''',
      CreateInvoiceRequest.CryptoAmount = Some 0x4059000000000000,
      CreateInvoiceRequest.Currency = ''BTC'',
      CreateInvoiceRequest.AllowedErrorPercent = Some 0,
      CreateInvoiceRequest.OrderName = '''',
      CreateInvoiceRequest.ExpireMin = None,
      CreateInvoiceRequest.CallbackURL = ''''\<rparr>"

section \<open>Properties\<close>

subsection \<open>Auxiliary facts\<close>


lemma decode_response_snd: "snd (decode_response u pre r) = snd r"
  by (cases r) (auto simp: decode_response_def split: sum.splits)

lemma CreateInvoice_snd:
  "\<exists>out. snd (CreateInvoice E c r) =
     Stdout out # snd (doRequest E c ''POST'' ''/invoices'' (Some (Body_CreateInvoiceRequest r)))"
  by (simp add: CreateInvoice_def Let_def split_beta decode_response_snd)



lemma GetCurrencies_snd:
  "snd (GetCurrencies E c) = snd (doRequest E c ''GET'' ''/currencies'' None)"
  using decode_response_snd [of "json_Unmarshal_Currencies E"
      "''failed to unmarshal currencies response: ''" "doRequest E c ''GET'' ''/currencies'' None"]
  by (auto simp: GetCurrencies_def split: prod.splits sum.splits)

lemma doRequest_sent:
  assumes "RoundTrip req \<in> set (snd (doRequest E c m p body))"
  shows "doRequest E c m p body =
     (case http_Do E req of
        Inl err \<Rightarrow> Inl (Wrapf ''failed to execute request: '' err)
      | Inr resp \<Rightarrow>
          (case Response.Body resp of
             Inl err \<Rightarrow> Inl (Wrapf ''failed to read response body: '' err)
           | Inr respBody \<Rightarrow>
               if Response.StatusCode resp \<ge> 400 then
                 (case json_Unmarshal_ErrorResponse E respBody of
                    Inl err \<Rightarrow>
                      Inl (Errorf (''HTTP '' @ fmt_d (Response.StatusCode resp)
                                   @ '': '' @ respBody))
                  | Inr apiError \<Rightarrow>
                      Inl (APIErr
                        \<lparr>APIError.StatusCode = Response.StatusCode resp,
                         ErrorType = Error apiError,
                         APIError.Message = ErrorResponse.Message apiError\<rparr>))
               else Inr respBody),
      [RoundTrip req])"
  using assms
  by (auto simp: doRequest_def Let_def split: option.split_asm sum.split_asm)



lemma doRequest_sent_request:
  assumes "RoundTrip req \<in> set (snd (doRequest E c m p body))"
  shows "Method req = m \<and> URL req = baseURL c @ p \<and>
         Request.Body req =
           (case body of
              None \<Rightarrow> None
            | Some b \<Rightarrow> (case json_Marshal E b of Inl err \<Rightarrow> None | Inr j \<Rightarrow> Some j))"
  using assms
  by (auto simp: doRequest_def http_NewRequestWithContext_def Header_Set_def Let_def
      split: option.split_asm sum.split_asm if_split_asm)

lemma doRequest_sent_marshal:
  "RoundTrip req \<in> set (snd (doRequest E c m p (Some b))) \<Longrightarrow> \<exists>j. json_Marshal E b = Inr j"
  by (cases "json_Marshal E b") (simp_all add: doRequest_def)


lemma example_doRequest_None:
  "doRequest (example_env st b) example_client m p None =
     (if 400 \<le> st then
        (case example_Unmarshal_ErrorResponse b of
           Inl err \<Rightarrow> Inl (Errorf (''HTTP '' @ fmt_d st @ '': '' @ b))
         | Inr er \<Rightarrow> Inl (APIErr \<lparr>APIError.StatusCode = st, ErrorType = Error er,
                                 APIError.Message = ErrorResponse.Message er\<rparr>))
      else Inr b,
      [RoundTrip \<lparr>Method = m, URL = ''https://api.itispay.com/api/v1'' @ p,
                  Header = [(''Content-Type'', [''application/json'']),
                            (''Api-key'', [''test-key''])],
                  Request.Body = None\<rparr>])"
  by (simp add: doRequest_def example_env_def example_client_def NewClient_def
      DefaultBaseURL_def http_NewRequestWithContext_def Header_Set_def Let_def
      split: sum.splits)


subsection \<open>Error mapping of \<open>doRequest\<close>\<close>






subsection \<open>\<open>APIError.Error\<close>\<close>

text \<open>
  Claim C10.  The \<open>Error\<close> method of an API error returns the message when the message
  is not empty and the error type otherwise; the status code has no part in the text,
  which stays the same when the status code is changed.
\<close>

theorem APIError_Error_message_or_type:
  "(APIError.Message e \<noteq> '''' \<longrightarrow> APIError_Error e = APIError.Message e) \<and>
   (APIError.Message e = '''' \<longrightarrow> APIError_Error e = ErrorType e) \<and>
   APIError_Error (e\<lparr>APIError.StatusCode := n\<rparr>) = APIError_Error e"
  by (simp add: APIError_Error_def)

theorem APIError_Error_message_or_type_witness:
  "APIError_Error \<lparr>APIError.StatusCode = 401, ErrorType = ''invalid_key'',
      APIError.Message = ''API key is invalid''\<rparr> = ''API key is invalid'' \<and>
   APIError_Error \<lparr>APIError.StatusCode = 401, ErrorType = ''invalid_key'',
      APIError.Message = ''''\<rparr> = ''invalid_key'' \<and>
   APIError_Error \<lparr>APIError.StatusCode = 404, ErrorType = ''invalid_key'',
      APIError.Message = ''''\<rparr> = ''invalid_key''"
  using APIError_Error_message_or_type [of "\<lparr>APIError.StatusCode = 401,
          ErrorType = ''invalid_key'', APIError.Message = ''API key is invalid''\<rparr>" 404]
    APIError_Error_message_or_type [of "\<lparr>APIError.StatusCode = 401,
          ErrorType = ''invalid_key'', APIError.Message = ''''\<rparr>" 404]
  by simp

subsection \<open>Serialization failure\<close>

lemma NaN_unsupported: "float64_IsInf_or_IsNaN 0x7FF8000000000000"
  by (simp add: float64_IsInf_or_IsNaN_def)

text \<open>
  Claim C8.  When the JSON serialization of the payload fails, \<open>doRequest\<close> returns at
  once the error \<open>failed to marshal request body\<close> wrapping the cause, and hands no
  request to the HTTP transport (its trace of effects is empty).  This error is neither
  the error of a failed round trip (\<open>failed to execute request\<close>) nor an API error.
\<close>

theorem marshal_failure_is_local_and_sends_nothing:
  assumes "json_Marshal E b = Inl e"
  shows "doRequest E c m p (Some b) = (Inl (Wrapf ''failed to marshal request body: '' e), []) \<and>
         Wrapf ''failed to marshal request body: '' e \<noteq> Wrapf ''failed to execute request: '' e' \<and>
         Wrapf ''failed to marshal request body: '' e \<noteq> APIErr a"
  using assms by (simp add: doRequest_def)

theorem marshal_failure_is_local_and_sends_nothing_witness:
  "json_Marshal (example_env 200 ''{}'') (Body_CreateInvoiceRequest nan_request) =
     Inl (UnsupportedValueError 0x7FF8000000000000) \<and>
   doRequest (example_env 200 ''{}'') example_client ''POST'' ''/invoices''
       (Some (Body_CreateInvoiceRequest nan_request)) =
     (Inl (Wrapf ''failed to marshal request body: ''
             (UnsupportedValueError 0x7FF8000000000000)), [])"
proof -
  have 1: "json_Marshal (example_env 200 ''{}'') (Body_CreateInvoiceRequest nan_request) =
             Inl (UnsupportedValueError 0x7FF8000000000000)"
    by (simp add: json_Marshal_def members_CreateInvoiceRequest_def nan_request_def
        member_string_def member_float_ptr_omitempty_def NaN_unsupported)
  from marshal_failure_is_local_and_sends_nothing [OF 1] 1 show ?thesis
    by simp
qed

subsection \<open>Request paths of \<open>GetInvoice\<close> and \<open>UpdateInvoiceStatus\<close>\<close>

lemma doRequest_requested_URLs_None:
  "requested_URLs (snd (doRequest E c m p None)) =
     (case http_request_error E m (baseURL c @ p) of
        None \<Rightarrow> [baseURL c @ p] | Some e \<Rightarrow> [])"
  by (auto simp: doRequest_def http_NewRequestWithContext_def Header_Set_def Let_def
      split: sum.splits option.splits)

lemma doRequest_requested_URLs_Some:
  "json_Marshal E b = Inr x \<Longrightarrow>
   requested_URLs (snd (doRequest E c m p (Some b))) =
     (case http_request_error E m (baseURL c @ p) of
        None \<Rightarrow> [baseURL c @ p] | Some e \<Rightarrow> [])"
  by (auto simp: doRequest_def http_NewRequestWithContext_def Header_Set_def Let_def
      split: sum.splits option.splits)

lemma json_Marshal_UpdateInvoiceRequest:
  "json_Marshal E (Body_UpdateInvoiceRequest r) =
     Inr (json_render E (JObject [(''status'', JString (UpdateInvoiceRequest.Status r))]))"
  by (simp add: json_Marshal_def members_UpdateInvoiceRequest_def member_string_def)

lemma PathEscape_a_slash_b: "PathEscape ''a/b'' = ''a%2Fb''"
  by (simp add: PathEscape_def escape_def escape_char_def shouldEscape_def isAlnum_def
      upperhex_def)

text \<open>
  Claim C3, as amended.  The claim has the invoice id path-escaped before it is put behind
  \<open>/invoices/\<close>; the counterexample after the theorem shows \<open>GetInvoice\<close> requesting
  \<open>/invoices/a/b\<close> for the id \<open>a/b\<close>, where the escaped path is \<open>/invoices/a%2Fb\<close>.
  What the code does: \<open>GetInvoice\<close> and \<open>UpdateInvoiceStatus\<close> put the id behind
  \<open>/invoices/\<close> as it is, without escaping; the one request they hand to the transport
  (none when the library rejects the URL) has the URL base URL, \<open>/invoices/\<close>, id.
\<close>

theorem invoice_id_is_embedded_verbatim:
  "requested_URLs (snd (GetInvoice E c invoiceID)) =
     (case http_request_error E ''GET'' (baseURL c @ ''/invoices/'' @ invoiceID) of
        None \<Rightarrow> [baseURL c @ ''/invoices/'' @ invoiceID] | Some e \<Rightarrow> []) \<and>
   requested_URLs (snd (UpdateInvoiceStatus E c invoiceID status)) =
     (case http_request_error E ''PATCH'' (baseURL c @ ''/invoices/'' @ invoiceID) of
        None \<Rightarrow> [baseURL c @ ''/invoices/'' @ invoiceID] | Some e \<Rightarrow> [])"
proof
  show "requested_URLs (snd (GetInvoice E c invoiceID)) =
     (case http_request_error E ''GET'' (baseURL c @ ''/invoices/'' @ invoiceID) of
        None \<Rightarrow> [baseURL c @ ''/invoices/'' @ invoiceID] | Some e \<Rightarrow> [])"
    unfolding GetInvoice_def decode_response_snd
    by (rule doRequest_requested_URLs_None)
  show "requested_URLs (snd (UpdateInvoiceStatus E c invoiceID status)) =
     (case http_request_error E ''PATCH'' (baseURL c @ ''/invoices/'' @ invoiceID) of
        None \<Rightarrow> [baseURL c @ ''/invoices/'' @ invoiceID] | Some e \<Rightarrow> [])"
    unfolding UpdateInvoiceStatus_def Let_def decode_response_snd
    by (rule doRequest_requested_URLs_Some [OF json_Marshal_UpdateInvoiceRequest])
qed

theorem invoice_id_is_embedded_verbatim_witness:
  "requested_URLs (snd (GetInvoice (example_env 200 ''{}'') example_client ''inv_1'')) =
     [''https://api.itispay.com/api/v1/invoices/inv_1''] \<and>
   requested_URLs (snd (UpdateInvoiceStatus (example_env 200 ''{}'') example_client
       ''a/b?x=1'' ''cancelled'')) =
     [''https://api.itispay.com/api/v1/invoices/a/b?x=1'']"
  using invoice_id_is_embedded_verbatim [of "example_env 200 ''{}''" example_client
      "''inv_1''" "''cancelled''"]
    invoice_id_is_embedded_verbatim [of "example_env 200 ''{}''" example_client
      "''a/b?x=1''" "''cancelled''"]
  by (simp add: example_env_def example_client_def NewClient_def DefaultBaseURL_def)

theorem invoice_id_is_not_path_escaped:
  "requested_URLs (snd (GetInvoice (example_env 200 ''{}'') example_client ''a/b'')) =
     [''https://api.itispay.com/api/v1/invoices/a/b''] \<and>
   baseURL example_client @ spec_invoice_path ''a/b'' =
     ''https://api.itispay.com/api/v1/invoices/a%2Fb'' \<and>
   requested_URLs (snd (GetInvoice (example_env 200 ''{}'') example_client ''a/b'')) \<noteq>
     [baseURL example_client @ spec_invoice_path ''a/b'']"
  by (simp add: GetInvoice_def decode_response_snd doRequest_requested_URLs_None
      spec_invoice_path_def PathEscape_a_slash_b
      example_env_def example_client_def NewClient_def DefaultBaseURL_def)

subsection \<open>\<open>CreateInvoice\<close>: the debug output and the payload on the wire\<close>

lemma members_crypto_request:
  "members_CreateInvoiceRequest crypto_request =
     Inr [(''order_id'', JString ''ORDER-1''), (''crypto_amount'', JFloat 0x4059000000000000),
          (''currency'', JString ''BTC''), (''allowed_error_percent'', JInt 0)]"
  by (simp add: members_CreateInvoiceRequest_def crypto_request_def member_string_def
      member_string_omitempty_def member_int_ptr_omitempty_def member_float_ptr_omitempty_def
      float64_IsInf_or_IsNaN_def)

lemma fmt_d_0: "fmt_d 0 = ''0''"
  by (simp add: fmt_d_def decimal.simps)

lemma example_render_crypto_request:
  \<open>example_render (JObject [(''order_id'', JString ''ORDER-1''),
       (''crypto_amount'', JFloat 0x4059000000000000),
       (''currency'', JString ''BTC''), (''allowed_error_percent'', JInt 0)]) =
     ''{"order_id":"ORDER-1","crypto_amount":100,"currency":"BTC","allowed_error_percent":0}''\<close>
  by (simp add: example_render_def example_scalar_def fmt_d_0)

lemma example_render_indent_crypto_request:
  \<open>example_render_indent (JObject [(''order_id'', JString ''ORDER-1''),
       (''crypto_amount'', JFloat 0x4059000000000000),
       (''currency'', JString ''BTC''), (''allowed_error_percent'', JInt 0)]) =
     ''{'' @ [CHR 0x0A] @
     ''  "order_id": "ORDER-1",'' @ [CHR 0x0A] @
     ''  "crypto_amount": 100,'' @ [CHR 0x0A] @
     ''  "currency": "BTC",'' @ [CHR 0x0A] @
     ''  "allowed_error_percent": 0'' @ [CHR 0x0A] @
     ''}''\<close>
  by (simp add: example_render_indent_def example_scalar_def fmt_d_0)

lemma example_doRequest_crypto_request:
  \<open>doRequest (example_env 200 ''{}'') example_client ''POST'' ''/invoices''
      (Some (Body_CreateInvoiceRequest crypto_request)) =
    (Inr ''{}'',
     [RoundTrip \<lparr>Method = ''POST'', URL = ''https://api.itispay.com/api/v1/invoices'',
        Header = [(''Content-Type'', [''application/json'']), (''Api-key'', [''test-key''])],
        Request.Body = Some (''{"order_id":"ORDER-1","crypto_amount":100,'' @
                             ''"currency":"BTC","allowed_error_percent":0}'')\<rparr>])\<close>
proof -
  have "json_Marshal (example_env 200 ''{}'') (Body_CreateInvoiceRequest crypto_request) =
          Inr (example_render (JObject [(''order_id'', JString ''ORDER-1''),
            (''crypto_amount'', JFloat 0x4059000000000000),
            (''currency'', JString ''BTC''), (''allowed_error_percent'', JInt 0)]))"
    by (simp add: json_Marshal_def members_crypto_request example_env_def)
  then show ?thesis
    unfolding example_render_crypto_request
    by (simp add: doRequest_def example_env_def example_client_def NewClient_def
        DefaultBaseURL_def http_NewRequestWithContext_def Header_Set_def Let_def)
qed

text \<open>
  Claim C9.  Every call of \<open>CreateInvoice\<close> first writes to standard output the line
  \<open>DEBUG: Creating invoice with request:\<close> followed by the indented JSON of the request
  (empty when the request cannot be serialized), whatever the client and the request are;
  only after that comes the request to the transport, if one is sent at all.  When a
  request is sent, the text printed is the indented rendering of the very document whose
  members the request carries.
\<close>

theorem CreateInvoice_prints_payload_first:
  "snd (CreateInvoice E c r) =
     Stdout (''DEBUG: Creating invoice with request:'' @ [CHR 0x0A] @
             (case json_MarshalIndent E (Body_CreateInvoiceRequest r) of
                Inl err \<Rightarrow> '''' | Inr b \<Rightarrow> b) @ [CHR 0x0A])
     # snd (doRequest E c ''POST'' ''/invoices'' (Some (Body_CreateInvoiceRequest r))) \<and>
   (snd (doRequest E c ''POST'' ''/invoices'' (Some (Body_CreateInvoiceRequest r))) = [] \<or>
    (\<exists>req. snd (doRequest E c ''POST'' ''/invoices'' (Some (Body_CreateInvoiceRequest r))) =
       [RoundTrip req])) \<and>
   (\<forall>req. RoundTrip req \<in> set (snd (CreateInvoice E c r)) \<longrightarrow>
      (\<exists>ms. members_CreateInvoiceRequest r = Inr ms \<and>
            snd (CreateInvoice E c r) =
              [Stdout (''DEBUG: Creating invoice with request:'' @ [CHR 0x0A] @
                       json_render_indent E (JObject ms) @ [CHR 0x0A]),
               RoundTrip req]))"
proof (intro conjI allI impI)
  let ?d = "doRequest E c ''POST'' ''/invoices'' (Some (Body_CreateInvoiceRequest r))"
  show first: "snd (CreateInvoice E c r) =
     Stdout (''DEBUG: Creating invoice with request:'' @ [CHR 0x0A] @
             (case json_MarshalIndent E (Body_CreateInvoiceRequest r) of
                Inl err \<Rightarrow> '''' | Inr b \<Rightarrow> b) @ [CHR 0x0A]) # snd ?d"
    by (simp add: CreateInvoice_def Let_def split_beta decode_response_snd)
  show "snd ?d = [] \<or> (\<exists>req. snd ?d = [RoundTrip req])"
    by (simp add: doRequest_def Let_def split: sum.splits option.splits)
  fix req
  assume "RoundTrip req \<in> set (snd (CreateInvoice E c r))"
  then have sent: "RoundTrip req \<in> set (snd ?d)"
    unfolding first by simp
  then obtain j where "json_Marshal E (Body_CreateInvoiceRequest r) = Inr j"
    using doRequest_sent_marshal by blast
  then obtain ms where ms: "members_CreateInvoiceRequest r = Inr ms"
    by (cases "members_CreateInvoiceRequest r") (simp_all add: json_Marshal_def)
  have "snd ?d = [RoundTrip req]"
    by (simp add: doRequest_sent [OF sent])
  then have "snd (CreateInvoice E c r) =
      [Stdout (''DEBUG: Creating invoice with request:'' @ [CHR 0x0A] @
               json_render_indent E (JObject ms) @ [CHR 0x0A]), RoundTrip req]"
    unfolding first by (simp add: json_MarshalIndent_def ms)
  with ms show "\<exists>ms. members_CreateInvoiceRequest r = Inr ms \<and>
            snd (CreateInvoice E c r) =
              [Stdout (''DEBUG: Creating invoice with request:'' @ [CHR 0x0A] @
                       json_render_indent E (JObject ms) @ [CHR 0x0A]),
               RoundTrip req]"
    by blast
qed

theorem CreateInvoice_prints_payload_first_witness:
  \<open>snd (CreateInvoice (example_env 200 ''{}'') example_client crypto_request) =
     [Stdout (''DEBUG: Creating invoice with request:'' @ [CHR 0x0A] @
              ''{'' @ [CHR 0x0A] @
              ''  "order_id": "ORDER-1",'' @ [CHR 0x0A] @
              ''  "crypto_amount": 100,'' @ [CHR 0x0A] @
              ''  "currency": "BTC",'' @ [CHR 0x0A] @
              ''  "allowed_error_percent": 0'' @ [CHR 0x0A] @
              ''}'' @ [CHR 0x0A]),
      RoundTrip \<lparr>Method = ''POST'', URL = ''https://api.itispay.com/api/v1/invoices'',
        Header = [(''Content-Type'', [''application/json'']), (''Api-key'', [''test-key''])],
        Request.Body = Some (''{"order_id":"ORDER-1","crypto_amount":100,'' @
                             ''"currency":"BTC","allowed_error_percent":0}'')\<rparr>]\<close>
proof -
  have "json_MarshalIndent (example_env 200 ''{}'') (Body_CreateInvoiceRequest crypto_request) =
          Inr (example_render_indent (JObject [(''order_id'', JString ''ORDER-1''),
            (''crypto_amount'', JFloat 0x4059000000000000),
            (''currency'', JString ''BTC''), (''allowed_error_percent'', JInt 0)]))"
    by (simp add: json_MarshalIndent_def members_crypto_request example_env_def)
  then show ?thesis
    using CreateInvoice_prints_payload_first [of "example_env 200 ''{}''" example_client
        crypto_request]
    unfolding example_render_indent_crypto_request example_doRequest_crypto_request
    by simp
qed

lemma CreateInvoice_request_body:
  assumes "members_CreateInvoiceRequest r = Inr ms"
    and "RoundTrip req \<in> set (snd (CreateInvoice E c r))"
  shows "Request.Body req = Some (json_render E (JObject ms))"
proof -
  have "RoundTrip req \<in> set (snd (doRequest E c ''POST'' ''/invoices''
          (Some (Body_CreateInvoiceRequest r))))"
    using assms(2) CreateInvoice_snd [of E c r] by auto
  from doRequest_sent_request [OF this] show ?thesis
    using assms(1) by (simp add: json_Marshal_def)
qed

lemma member_float_ptr_omitempty_Inr:
  "member_float_ptr_omitempty k p = Inr ms \<Longrightarrow>
   ms = (case p of None \<Rightarrow> [] | Some f \<Rightarrow> [(k, JFloat f)])"
  by (auto simp: member_float_ptr_omitempty_def split: option.splits if_splits)

lemma members_CreateInvoiceRequest_Inr:
  assumes "members_CreateInvoiceRequest r = Inr ms"
  shows "ms =
     [(''order_id'', JString (CreateInvoiceRequest.OrderID r))] @
     (case CreateInvoiceRequest.FiatAmount r of None \<Rightarrow> [] | Some f \<Rightarrow> [(''fiat_amount'', JFloat f)]) @
     (if CreateInvoiceRequest.FiatCurrency r = '''' then []
      else [(''fiat_currency'', JString (CreateInvoiceRequest.FiatCurrency r))]) @
     (case CreateInvoiceRequest.CryptoAmount r of None \<Rightarrow> []
      | Some f \<Rightarrow> [(''crypto_amount'', JFloat f)]) @
     [(''currency'', JString (CreateInvoiceRequest.Currency r))] @
     (case CreateInvoiceRequest.AllowedErrorPercent r of None \<Rightarrow> []
      | Some n \<Rightarrow> [(''allowed_error_percent'', JInt n)]) @
     (if CreateInvoiceRequest.OrderName r = '''' then []
      else [(''order_name'', JString (CreateInvoiceRequest.OrderName r))]) @
     (case CreateInvoiceRequest.ExpireMin r of None \<Rightarrow> [] | Some n \<Rightarrow> [(''expire_min'', JInt n)]) @
     (if CreateInvoiceRequest.CallbackURL r = '''' then []
      else [(''callback_url'', JString (CreateInvoiceRequest.CallbackURL r))])"
proof -
  let ?fa = "member_float_ptr_omitempty ''fiat_amount'' (CreateInvoiceRequest.FiatAmount r)"
  let ?ca = "member_float_ptr_omitempty ''crypto_amount'' (CreateInvoiceRequest.CryptoAmount r)"
  obtain a where a: "?fa = Inr a"
    using assms
    by (cases ?fa) (simp_all add: members_CreateInvoiceRequest_def member_string_def)
  obtain b where b: "?ca = Inr b"
    using assms a
    by (cases ?ca)
      (simp_all add: members_CreateInvoiceRequest_def member_string_def
        member_string_omitempty_def)
  have "ms = [(''order_id'', JString (CreateInvoiceRequest.OrderID r))] @ a @
     (if CreateInvoiceRequest.FiatCurrency r = '''' then []
      else [(''fiat_currency'', JString (CreateInvoiceRequest.FiatCurrency r))]) @ b @
     [(''currency'', JString (CreateInvoiceRequest.Currency r))] @
     (case CreateInvoiceRequest.AllowedErrorPercent r of None \<Rightarrow> []
      | Some n \<Rightarrow> [(''allowed_error_percent'', JInt n)]) @
     (if CreateInvoiceRequest.OrderName r = '''' then []
      else [(''order_name'', JString (CreateInvoiceRequest.OrderName r))]) @
     (case CreateInvoiceRequest.ExpireMin r of None \<Rightarrow> [] | Some n \<Rightarrow> [(''expire_min'', JInt n)]) @
     (if CreateInvoiceRequest.CallbackURL r = '''' then []
      else [(''callback_url'', JString (CreateInvoiceRequest.CallbackURL r))])"
    using assms
    by (simp add: members_CreateInvoiceRequest_def a b member_string_def
        member_string_omitempty_def member_int_ptr_omitempty_def)
  then show ?thesis
    by (simp only: member_float_ptr_omitempty_Inr [OF a] member_float_ptr_omitempty_Inr [OF b])
qed

lemma set_optional_member:
  "set (case p of None \<Rightarrow> [] | Some f \<Rightarrow> [(k, g f)]) = (\<lambda>f. (k, g f)) ` set_option p"
  by (cases p) auto

lemma distinct_optional_member:
  "distinct (map fst (case p of None \<Rightarrow> [] | Some f \<Rightarrow> [(k, g f)]))"
  by (cases p) auto

lemma set_members_CreateInvoiceRequest:
  assumes "members_CreateInvoiceRequest r = Inr ms"
  shows "set ms =
     {(''order_id'', JString (CreateInvoiceRequest.OrderID r))} \<union>
     (\<lambda>f. (''fiat_amount'', JFloat f)) ` set_option (CreateInvoiceRequest.FiatAmount r) \<union>
     (if CreateInvoiceRequest.FiatCurrency r = '''' then {}
      else {(''fiat_currency'', JString (CreateInvoiceRequest.FiatCurrency r))}) \<union>
     (\<lambda>f. (''crypto_amount'', JFloat f)) ` set_option (CreateInvoiceRequest.CryptoAmount r) \<union>
     {(''currency'', JString (CreateInvoiceRequest.Currency r))} \<union>
     (\<lambda>n. (''allowed_error_percent'', JInt n)) `
        set_option (CreateInvoiceRequest.AllowedErrorPercent r) \<union>
     (if CreateInvoiceRequest.OrderName r = '''' then {}
      else {(''order_name'', JString (CreateInvoiceRequest.OrderName r))}) \<union>
     (\<lambda>n. (''expire_min'', JInt n)) ` set_option (CreateInvoiceRequest.ExpireMin r) \<union>
     (if CreateInvoiceRequest.CallbackURL r = '''' then {}
      else {(''callback_url'', JString (CreateInvoiceRequest.CallbackURL r))})"
  unfolding members_CreateInvoiceRequest_Inr [OF assms]
  by (simp add: set_optional_member Un_ac)

lemma key_optional_member:
  "(k \<in> fst ` (\<lambda>f. (k', g f)) ` set_option p) = (k = k' \<and> p \<noteq> None)"
  by (cases p) auto

lemma key_if_member: "(k \<in> fst ` (if c then {} else {(k', v)})) = (\<not> c \<and> k = k')"
  by auto

text \<open>
  Claim C6.  In the JSON document that \<open>CreateInvoice\<close> sends for a request, the members
  \<open>fiat_amount\<close>, \<open>crypto_amount\<close>, \<open>allowed_error_percent\<close> and \<open>expire_min\<close> are
  present exactly when the field is set; a field that is set, be it to zero, appears with
  its value, and one that is unset has no member at all, neither 0 nor null.  No key
  occurs twice, and the body of the request on the wire is the rendering of this document.
\<close>

theorem optional_fields_omitted_when_unset:
  assumes "members_CreateInvoiceRequest r = Inr ms"
  shows "(''fiat_amount'' \<in> fst ` set ms) = (CreateInvoiceRequest.FiatAmount r \<noteq> None) \<and>
    (''crypto_amount'' \<in> fst ` set ms) = (CreateInvoiceRequest.CryptoAmount r \<noteq> None) \<and>
    (''allowed_error_percent'' \<in> fst ` set ms) =
      (CreateInvoiceRequest.AllowedErrorPercent r \<noteq> None) \<and>
    (''expire_min'' \<in> fst ` set ms) = (CreateInvoiceRequest.ExpireMin r \<noteq> None) \<and>
    (\<forall>f. CreateInvoiceRequest.FiatAmount r = Some f \<longrightarrow> (''fiat_amount'', JFloat f) \<in> set ms) \<and>
    (\<forall>f. CreateInvoiceRequest.CryptoAmount r = Some f \<longrightarrow>
       (''crypto_amount'', JFloat f) \<in> set ms) \<and>
    (\<forall>n. CreateInvoiceRequest.AllowedErrorPercent r = Some n \<longrightarrow>
       (''allowed_error_percent'', JInt n) \<in> set ms) \<and>
    (\<forall>n. CreateInvoiceRequest.ExpireMin r = Some n \<longrightarrow> (''expire_min'', JInt n) \<in> set ms) \<and>
    distinct (map fst ms) \<and>
    (\<forall>req. RoundTrip req \<in> set (snd (CreateInvoice E c r)) \<longrightarrow>
       Request.Body req = Some (json_render E (JObject ms)))"
proof -
  note ms = members_CreateInvoiceRequest_Inr [OF assms]
  note S = set_members_CreateInvoiceRequest [OF assms]
  have k1: "(''fiat_amount'' \<in> fst ` set ms) = (CreateInvoiceRequest.FiatAmount r \<noteq> None)"
    unfolding S by (simp add: image_Un key_optional_member key_if_member)
  have k2: "(''crypto_amount'' \<in> fst ` set ms) = (CreateInvoiceRequest.CryptoAmount r \<noteq> None)"
    unfolding S by (simp add: image_Un key_optional_member key_if_member)
  have k3: "(''allowed_error_percent'' \<in> fst ` set ms) =
      (CreateInvoiceRequest.AllowedErrorPercent r \<noteq> None)"
    unfolding S by (simp add: image_Un key_optional_member key_if_member)
  have k4: "(''expire_min'' \<in> fst ` set ms) = (CreateInvoiceRequest.ExpireMin r \<noteq> None)"
    unfolding S by (simp add: image_Un key_optional_member key_if_member)
  have v: "\<forall>f. CreateInvoiceRequest.FiatAmount r = Some f \<longrightarrow> (''fiat_amount'', JFloat f) \<in> set ms"
    "\<forall>f. CreateInvoiceRequest.CryptoAmount r = Some f \<longrightarrow> (''crypto_amount'', JFloat f) \<in> set ms"
    "\<forall>n. CreateInvoiceRequest.AllowedErrorPercent r = Some n \<longrightarrow>
       (''allowed_error_percent'', JInt n) \<in> set ms"
    "\<forall>n. CreateInvoiceRequest.ExpireMin r = Some n \<longrightarrow> (''expire_min'', JInt n) \<in> set ms"
    unfolding S by simp_all
  have d: "distinct (map fst ms)"
    unfolding ms by (auto simp: set_optional_member distinct_optional_member image_image)
  have w: "\<forall>req. RoundTrip req \<in> set (snd (CreateInvoice E c r)) \<longrightarrow>
       Request.Body req = Some (json_render E (JObject ms))"
    using CreateInvoice_request_body [OF assms] by blast
  show ?thesis
    using k1 k2 k3 k4 v d w by blast
qed

theorem optional_fields_omitted_when_unset_witness:
  \<open>members_CreateInvoiceRequest crypto_request =
     Inr [(''order_id'', JString ''ORDER-1''), (''crypto_amount'', JFloat 0x4059000000000000),
          (''currency'', JString ''BTC''), (''allowed_error_percent'', JInt 0)] \<and>
   CreateInvoiceRequest.FiatAmount crypto_request = None \<and>
   ''fiat_amount'' \<notin> fst ` set [(''order_id'', JString ''ORDER-1''),
          (''crypto_amount'', JFloat 0x4059000000000000),
          (''currency'', JString ''BTC''), (''allowed_error_percent'', JInt 0)] \<and>
   CreateInvoiceRequest.ExpireMin crypto_request = None \<and>
   ''expire_min'' \<notin> fst ` set [(''order_id'', JString ''ORDER-1''),
          (''crypto_amount'', JFloat 0x4059000000000000),
          (''currency'', JString ''BTC''), (''allowed_error_percent'', JInt 0)] \<and>
   CreateInvoiceRequest.AllowedErrorPercent crypto_request = Some 0 \<and>
   (''allowed_error_percent'', JInt 0) \<in> set [(''order_id'', JString ''ORDER-1''),
          (''crypto_amount'', JFloat 0x4059000000000000),
          (''currency'', JString ''BTC''), (''allowed_error_percent'', JInt 0)] \<and>
   map (\<lambda>ev. case ev of RoundTrip req \<Rightarrow> Request.Body req | Stdout s \<Rightarrow> None)
     (snd (CreateInvoice (example_env 200 ''{}'') example_client crypto_request)) =
     [None, Some (''{"order_id":"ORDER-1","crypto_amount":100,'' @
                  ''"currency":"BTC","allowed_error_percent":0}'')]\<close>
proof -
  note inst = optional_fields_omitted_when_unset [OF members_crypto_request,
      of "example_env 200 ''{}''" example_client]
  have evs: "\<exists>out req. snd (CreateInvoice (example_env 200 ''{}'') example_client crypto_request) =
          [Stdout out, RoundTrip req]"
    using CreateInvoice_snd [of "example_env 200 ''{}''" example_client crypto_request]
    by (auto simp: example_doRequest_crypto_request)
  then obtain out req where
    e: "snd (CreateInvoice (example_env 200 ''{}'') example_client crypto_request) =
          [Stdout out, RoundTrip req]"
    by blast
  have "Request.Body req = Some (json_render (example_env 200 ''{}'')
          (JObject [(''order_id'', JString ''ORDER-1''),
            (''crypto_amount'', JFloat 0x4059000000000000),
            (''currency'', JString ''BTC''), (''allowed_error_percent'', JInt 0)]))"
    using inst e by simp
  then have b: \<open>Request.Body req = Some (''{"order_id":"ORDER-1","crypto_amount":100,'' @
                  ''"currency":"BTC","allowed_error_percent":0}'')\<close>
    using example_render_crypto_request by (simp add: example_env_def)
  have f: "CreateInvoiceRequest.FiatAmount crypto_request = None"
    "CreateInvoiceRequest.ExpireMin crypto_request = None"
    "CreateInvoiceRequest.AllowedErrorPercent crypto_request = Some 0"
    by (simp_all add: crypto_request_def)
  show ?thesis
    using inst f by (simp add: members_crypto_request e b)
qed

subsection \<open>\<open>GetCurrencies\<close>\<close>

text \<open>
  Claim C7.  When the transport answers the request of \<open>GetCurrencies\<close> with a status
  below 400 (any 2xx status in particular) and the body decodes as an array of currency
  objects, \<open>GetCurrencies\<close> returns the wrapper whose \<open>Currencies\<close> list is the decoded
  list itself: the same elements in the same order.
\<close>

theorem GetCurrencies_wraps_decoded_array:
  assumes "http_Do E req = Inr resp" and "Response.Body resp = Inr b"
    and "Response.StatusCode resp < 400"
    and "json_Unmarshal_Currencies E b = Inr cs"
    and "RoundTrip req \<in> set (snd (GetCurrencies E c))"
  shows "fst (GetCurrencies E c) = Inr \<lparr>Currencies = cs\<rparr>"
proof -
  have "RoundTrip req \<in> set (snd (doRequest E c ''GET'' ''/currencies'' None))"
    using assms(5) by (simp add: GetCurrencies_snd)
  then have "doRequest E c ''GET'' ''/currencies'' None = (Inr b, [RoundTrip req])"
    using assms(1-3) by (simp add: doRequest_sent)
  then show ?thesis
    using assms(4) by (simp add: GetCurrencies_def decode_response_def)
qed

theorem GetCurrencies_wraps_decoded_array_witness:
  "(200::int) < 400 \<and>
   json_Unmarshal_Currencies (example_env 200 currencies_body) currencies_body =
     Inr [currency_BTC, currency_EUR] \<and>
   fst (GetCurrencies (example_env 200 currencies_body) example_client) =
     Inr \<lparr>Currencies = [currency_BTC, currency_EUR]\<rparr>"
proof -
  let ?E = "example_env 200 currencies_body"
  let ?req = "\<lparr>Method = ''GET'', URL = ''https://api.itispay.com/api/v1/currencies'',
                Header = [(''Content-Type'', [''application/json'']),
                          (''Api-key'', [''test-key''])],
                Request.Body = None\<rparr>"
  let ?resp = "\<lparr>Response.StatusCode = 200, Response.Body = Inr currencies_body\<rparr>"
  have 1: "http_Do ?E ?req = Inr ?resp"
    by (simp add: example_env_def)
  have 2: "Response.Body ?resp = Inr currencies_body"
    by simp
  have 3: "Response.StatusCode ?resp < 400"
    by simp
  have 4: "json_Unmarshal_Currencies ?E currencies_body = Inr [currency_BTC, currency_EUR]"
    by (simp add: example_env_def example_Unmarshal_Currencies_def)
  have 5: "RoundTrip ?req \<in> set (snd (GetCurrencies ?E example_client))"
    by (simp add: GetCurrencies_snd example_doRequest_None)
  from GetCurrencies_wraps_decoded_array [OF 1 2 3 4 5] 4
  show ?thesis by simp
qed

subsection \<open>The query string of \<open>ListInvoices\<close>\<close>

lemma update_fresh: "k \<notin> fst ` set al \<Longrightarrow> AList.update k v al = al @ [(k, v)]"
  by (induction al) auto

lemma key_param_int: "(k' \<in> fst ` set (param_int k n)) = (k' = k \<and> n > 0)"
  by (auto simp: param_int_def)

lemma key_param_string: "(k' \<in> fst ` set (param_string k s)) = (k' = k \<and> s \<noteq> '''')"
  by (auto simp: param_string_def)

lemma key_param_time: "(k' \<in> fst ` set (param_time E k t)) = (k' = k \<and> \<not> Time_IsZero t)"
  by (auto simp: param_time_def)

lemma keys_single_values: "fst ` (\<lambda>(k, x). (k, [x])) ` A = fst ` A"
  by force

lemma Set_param_int:
  "k \<notin> fst ` set q \<Longrightarrow>
   (if n > 0 then Values_Set k (fmt_d n) q else q) =
     q @ map (\<lambda>(k, x). (k, [x])) (param_int k n)"
  by (simp add: Values_Set_def param_int_def update_fresh)

lemma Set_param_string:
  "k \<notin> fst ` set q \<Longrightarrow>
   (if s \<noteq> '''' then Values_Set k s q else q) =
     q @ map (\<lambda>(k, x). (k, [x])) (param_string k s)"
  by (simp add: Values_Set_def param_string_def update_fresh)

lemma Set_param_time:
  "k \<notin> fst ` set q \<Longrightarrow>
   (if \<not> Time_IsZero t then Values_Set k (Time_Format_RFC3339 E t) q else q) =
     q @ map (\<lambda>(k, x). (k, [x])) (param_time E k t)"
  by (simp add: Values_Set_def param_time_def update_fresh)

lemma ListInvoices_queryParams_by_precedence:
  "ListInvoices_queryParams E p = map (\<lambda>(k, x). (k, [x])) (spec_params_by_precedence E p)"
proof -
  let ?g = "\<lambda>(k, x). (k, [x :: string])"
  let ?a1 = "param_int ''page'' (Page p)"
  let ?a2 = "param_int ''page_size'' (ListInvoicesParams.PageSize p)"
  let ?a3 = "param_string ''status'' (ListInvoicesParams.Status p)"
  let ?a4 = "param_string ''currency'' (ListInvoicesParams.Currency p)"
  let ?a5 = "param_time E ''created_after'' (CreatedAfter p)"
  let ?a6 = "param_time E ''created_before'' (CreatedBefore p)"
  let ?a7 = "param_string ''sort_by'' (SortBy p)"
  let ?a8 = "param_string ''sort_order'' (SortOrder p)"
  note keys = keys_single_values image_Un key_param_int key_param_string key_param_time
  have 1: "(if Page p > 0 then Values_Set ''page'' (fmt_d (Page p)) [] else []) = map ?g ?a1"
    using Set_param_int [of "''page''" "[]" "Page p"] by simp
  have 2: "(if ListInvoicesParams.PageSize p > 0
            then Values_Set ''page_size'' (fmt_d (ListInvoicesParams.PageSize p)) (map ?g ?a1)
            else map ?g ?a1) = map ?g (?a1 @ ?a2)"
    by (subst Set_param_int) (simp_all add: keys)
  have 3: "(if ListInvoicesParams.Status p \<noteq> ''''
            then Values_Set ''status'' (ListInvoicesParams.Status p) (map ?g (?a1 @ ?a2))
            else map ?g (?a1 @ ?a2)) = map ?g (?a1 @ ?a2 @ ?a3)"
    by (subst Set_param_string) (simp_all add: keys)
  have 4: "(if ListInvoicesParams.Currency p \<noteq> ''''
            then Values_Set ''currency'' (ListInvoicesParams.Currency p)
                   (map ?g (?a1 @ ?a2 @ ?a3))
            else map ?g (?a1 @ ?a2 @ ?a3)) = map ?g (?a1 @ ?a2 @ ?a3 @ ?a4)"
    by (subst Set_param_string) (simp_all add: keys)
  have 5: "(if \<not> Time_IsZero (CreatedAfter p)
            then Values_Set ''created_after'' (Time_Format_RFC3339 E (CreatedAfter p))
                   (map ?g (?a1 @ ?a2 @ ?a3 @ ?a4))
            else map ?g (?a1 @ ?a2 @ ?a3 @ ?a4)) = map ?g (?a1 @ ?a2 @ ?a3 @ ?a4 @ ?a5)"
    by (subst Set_param_time) (simp_all add: keys)
  have 6: "(if \<not> Time_IsZero (CreatedBefore p)
            then Values_Set ''created_before'' (Time_Format_RFC3339 E (CreatedBefore p))
                   (map ?g (?a1 @ ?a2 @ ?a3 @ ?a4 @ ?a5))
            else map ?g (?a1 @ ?a2 @ ?a3 @ ?a4 @ ?a5)) =
           map ?g (?a1 @ ?a2 @ ?a3 @ ?a4 @ ?a5 @ ?a6)"
    by (subst Set_param_time) (simp_all add: keys)
  have 7: "(if SortBy p \<noteq> ''''
            then Values_Set ''sort_by'' (SortBy p) (map ?g (?a1 @ ?a2 @ ?a3 @ ?a4 @ ?a5 @ ?a6))
            else map ?g (?a1 @ ?a2 @ ?a3 @ ?a4 @ ?a5 @ ?a6)) =
           map ?g (?a1 @ ?a2 @ ?a3 @ ?a4 @ ?a5 @ ?a6 @ ?a7)"
    by (subst Set_param_string) (simp_all add: keys)
  have 8: "(if SortOrder p \<noteq> ''''
            then Values_Set ''sort_order'' (SortOrder p)
                   (map ?g (?a1 @ ?a2 @ ?a3 @ ?a4 @ ?a5 @ ?a6 @ ?a7))
            else map ?g (?a1 @ ?a2 @ ?a3 @ ?a4 @ ?a5 @ ?a6 @ ?a7)) =
           map ?g (?a1 @ ?a2 @ ?a3 @ ?a4 @ ?a5 @ ?a6 @ ?a7 @ ?a8)"
    by (subst Set_param_string) (simp_all add: keys)
  show ?thesis
    unfolding ListInvoices_queryParams_def Let_def spec_params_by_precedence_def
    by (simp only: 1 2 3 4 5 6 7 8)
qed

lemma insort_key_single_values:
  "insort_key fst ((\<lambda>(k, x). (k, [x])) a) (map (\<lambda>(k, x). (k, [x])) xs) =
   map (\<lambda>(k, x). (k, [x])) (insort_key fst a xs)"
  by (induction xs) (auto simp: case_prod_beta)

lemma sort_key_single_values:
  "sort_key fst (map (\<lambda>(k, x). (k, [x])) xs) = map (\<lambda>(k, x). (k, [x])) (sort_key fst xs)"
  by (induction xs) (simp_all add: insort_key_single_values)

lemma Values_Encode_single_values:
  "Values_Encode (map (\<lambda>(k, x). (k, [x])) items) =
     (if items = [] then ''''
      else join ''&'' (map (\<lambda>(k, x). QueryEscape k @ ''='' @ QueryEscape x)
                         (sort_key fst items)))"
proof -
  have "concat (map (\<lambda>(k, vs). map (\<lambda>x. QueryEscape k @ ''='' @ QueryEscape x) vs)
          (map (\<lambda>(k, x). (k, [x])) ys)) =
        map (\<lambda>(k, x). QueryEscape k @ ''='' @ QueryEscape x) ys" for ys :: "(string \<times> string) list"
    by (induction ys) auto
  then show ?thesis
    by (simp add: Values_Encode_def sort_key_single_values)
qed

text \<open>
  Sorting by key has one result for all lists with the same elements and distinct keys:
  the order in which a map hands out its entries does not matter.
\<close>

lemma sort_key_unique:
  fixes f :: "'a \<Rightarrow> 'k::linorder"
  assumes "set xs = set ys" and "distinct xs"
    and "distinct (map f ys)" and "sorted (map f ys)"
  shows "sort_key f xs = ys"
proof (rule map_sorted_distinct_set_unique [of f])
  have inj: "inj_on f (set ys)"
    using assms(3) by (simp add: distinct_map)
  show "inj_on f (set (sort_key f xs) \<union> set ys)"
    using inj assms(1) by simp
  show "sorted (map f (sort_key f xs))"
    by simp
  show "distinct (map f (sort_key f xs))"
    using inj assms(1,2) by (simp add: distinct_map)
  show "sorted (map f ys)" "distinct (map f ys)"
    using assms by simp_all
  show "set (sort_key f xs) = set ys"
    using assms(1) by simp
qed

lemma param_keys:
  "(k', x) \<in> set (param_int k n) \<Longrightarrow> k' = k"
  "(k', x) \<in> set (param_string k s) \<Longrightarrow> k' = k"
  "(k', x) \<in> set (param_time E k t) \<Longrightarrow> k' = k"
  by (auto simp: param_int_def param_string_def param_time_def split: if_splits)

lemma param_sorted_distinct:
  "sorted (map fst (param_int k n))" "distinct (map fst (param_int k n))"
  "sorted (map fst (param_string k s))" "distinct (map fst (param_string k s))"
  "sorted (map fst (param_time E k t))" "distinct (map fst (param_time E k t))"
  "distinct (param_int k n)" "distinct (param_string k s)" "distinct (param_time E k t)"
  by (simp_all add: param_int_def param_string_def param_time_def)

lemma params_by_key_sorted: "sorted (map fst (params_by_key E p))"
  unfolding params_by_key_def
  by (auto simp: sorted_append param_sorted_distinct dest!: param_keys)

lemma params_by_key_distinct: "distinct (map fst (params_by_key E p))"
  unfolding params_by_key_def
  by (auto simp: param_sorted_distinct dest!: param_keys)

lemma spec_params_by_precedence_distinct: "distinct (spec_params_by_precedence E p)"
  unfolding spec_params_by_precedence_def
  by (auto simp: param_sorted_distinct dest!: param_keys)

lemma params_same_set: "set (spec_params_by_precedence E p) = set (params_by_key E p)"
  unfolding spec_params_by_precedence_def params_by_key_def
  by (simp add: Un_ac)

lemma sort_spec_params_by_precedence:
  "sort_key fst (spec_params_by_precedence E p) = params_by_key E p"
  by (rule sort_key_unique [OF params_same_set spec_params_by_precedence_distinct
        params_by_key_distinct params_by_key_sorted])

lemma QueryEscape_keys:
  "QueryEscape ''page'' = ''page''" "QueryEscape ''page_size'' = ''page_size''"
  "QueryEscape ''status'' = ''status''" "QueryEscape ''currency'' = ''currency''"
  "QueryEscape ''created_after'' = ''created_after''"
  "QueryEscape ''created_before'' = ''created_before''"
  "QueryEscape ''sort_by'' = ''sort_by''" "QueryEscape ''sort_order'' = ''sort_order''"
  by (simp_all add: QueryEscape_def escape_def escape_char_def shouldEscape_def isAlnum_def)

lemma params_by_key_plain_keys: "(k, x) \<in> set (params_by_key E p) \<Longrightarrow> QueryEscape k = k"
  unfolding params_by_key_def
  by (auto dest!: param_keys simp: QueryEscape_keys)

lemma query_of_params_by_key:
  "join ''&'' (map (\<lambda>(k, x). QueryEscape k @ ''='' @ QueryEscape x) (params_by_key E p)) =
   query_of (params_by_key E p)"
proof -
  have "map (\<lambda>(k, x). QueryEscape k @ ''='' @ QueryEscape x) (params_by_key E p) =
        map (\<lambda>(k, x). k @ ''='' @ QueryEscape x) (params_by_key E p)"
    by (rule map_cong) (auto simp: params_by_key_plain_keys)
  then show ?thesis
    unfolding query_of_def by (rule arg_cong)
qed

lemma ListInvoices_path_by_key: "ListInvoices_path E p = path_with_query (params_by_key E p)"
proof -
  have e: "(spec_params_by_precedence E p = []) = (params_by_key E p = [])"
    using params_same_set [of E p] by (metis set_empty)
  have "Values_Encode (ListInvoices_queryParams E p) =
          (if params_by_key E p = [] then '''' else query_of (params_by_key E p))"
    unfolding ListInvoices_queryParams_by_precedence Values_Encode_single_values
      sort_spec_params_by_precedence query_of_params_by_key e ..
  moreover have "(0 < length (ListInvoices_queryParams E p)) = (params_by_key E p \<noteq> [])"
    by (simp add: ListInvoices_queryParams_by_precedence e)
  ultimately show ?thesis
    by (simp add: ListInvoices_path_def Let_def path_with_query_def)
qed

lemma Values_Encode_order_irrelevant:
  assumes "set q = set q'" and "distinct (map fst q)" and "distinct (map fst q')"
  shows "Values_Encode q = Values_Encode q'"
proof -
  have "sort_key fst q = sort_key fst q'"
  proof (rule sort_key_unique)
    show "set q = set (sort_key fst q')"
      using assms(1) by simp
    show "distinct q"
      using assms(2) by (simp add: distinct_map)
    have "inj_on fst (set q')"
      using assms(3) by (simp add: distinct_map)
    then show "distinct (map fst (sort_key fst q'))"
      using assms(3) by (simp add: distinct_map)
    show "sorted (map fst (sort_key fst q'))"
      by simp
  qed
  moreover have "(length q = 0) = (length q' = 0)"
    using assms(1) by (metis length_0_conv set_empty)
  ultimately show ?thesis
    by (simp add: Values_Encode_def)
qed

lemma ListInvoices_queryParams_distinct: "distinct (map fst (ListInvoices_queryParams E p))"
proof -
  have "map fst (ListInvoices_queryParams E p) = map fst (spec_params_by_precedence E p)"
    by (simp add: ListInvoices_queryParams_by_precedence case_prod_beta comp_def)
  moreover have "distinct (map fst (spec_params_by_precedence E p))"
    unfolding spec_params_by_precedence_def
    by (auto simp: param_sorted_distinct dest!: param_keys)
  ultimately show ?thesis
    by simp
qed

lemma fmt_d_small: "fmt_d 1 = ''1''" "fmt_d 2 = ''2''" "fmt_d 10 = ''10''"
  by (simp_all add: fmt_d_def decimal.simps)

lemma QueryEscape_examples:
  "QueryEscape ''new'' = ''new''" "QueryEscape ''BTC'' = ''BTC''"
  "QueryEscape ''1'' = ''1''" "QueryEscape ''2'' = ''2''" "QueryEscape ''10'' = ''10''"
  "QueryEscape ''2024-01-01T00:00:00Z'' = ''2024-01-01T00%3A00%3A00Z''"
  by (simp_all add: QueryEscape_def escape_def escape_char_def shouldEscape_def isAlnum_def
      upperhex_def)

lemma path_with_query_bare: "(path_with_query items = ''/invoices'') = (items = [])"
  by (simp add: path_with_query_def)

lemma keys_ListInvoices_queryParams:
  "fst ` set (ListInvoices_queryParams E p) = fst ` set (spec_params_by_precedence E p)"
  by (simp add: ListInvoices_queryParams_by_precedence keys_single_values)

lemma ListInvoices_requested_URLs:
  "requested_URLs (snd (ListInvoices E c p)) =
     (case http_request_error E ''GET'' (baseURL c @ ListInvoices_path E p) of
        None \<Rightarrow> [baseURL c @ ListInvoices_path E p] | Some e \<Rightarrow> [])"
  unfolding ListInvoices_def decode_response_snd
  by (rule doRequest_requested_URLs_None)

lemma example_ListInvoices_requested_URLs:
  "requested_URLs (snd (ListInvoices (example_env st b) example_client p)) =
     [''https://api.itispay.com/api/v1'' @ ListInvoices_path (example_env st b) p]"
proof -
  have "http_request_error (example_env st b) ''GET''
          (baseURL example_client @ ListInvoices_path (example_env st b) p) = None"
    by (simp add: example_env_def)
  moreover have "baseURL example_client = ''https://api.itispay.com/api/v1''"
    by (simp add: example_client_def NewClient_def DefaultBaseURL_def)
  ultimately show ?thesis
    by (simp only: ListInvoices_requested_URLs option.case)
qed

text \<open>
  Claim C4, as amended.  The claim has the parameters in the query string in the order
  page, page_size, status, currency, created_after, created_before, sort_by, sort_order;
  the counterexample below has \<open>currency\<close> before \<open>status\<close>.  What the code does: the
  parameters that are not default appear in ascending order of their keys
  (created_after, created_before, currency, page, page_size, sort_by, sort_order, status),
  each as key, \<open>=\<close> and the query-escaped value, joined by \<open>&\<close>.  The construction is
  deterministic: the path is a function of the parameters, and the encoding is the same
  for every order in which the map of query values could hand out its entries.  The
  request that \<open>ListInvoices\<close> hands to the transport has this path behind the base URL.
\<close>

theorem ListInvoices_path_params_in_key_order:
  "ListInvoices_path E p = path_with_query (params_by_key E p) \<and>
   (\<forall>q. set q = set (ListInvoices_queryParams E p) \<and> distinct (map fst q) \<longrightarrow>
        Values_Encode q = Values_Encode (ListInvoices_queryParams E p)) \<and>
   requested_URLs (snd (ListInvoices E c p)) =
     (case http_request_error E ''GET'' (baseURL c @ path_with_query (params_by_key E p)) of
        None \<Rightarrow> [baseURL c @ path_with_query (params_by_key E p)] | Some e \<Rightarrow> [])"
proof (intro conjI)
  show "ListInvoices_path E p = path_with_query (params_by_key E p)"
    by (rule ListInvoices_path_by_key)
  show "\<forall>q. set q = set (ListInvoices_queryParams E p) \<and> distinct (map fst q) \<longrightarrow>
        Values_Encode q = Values_Encode (ListInvoices_queryParams E p)"
    using Values_Encode_order_irrelevant [OF _ _ ListInvoices_queryParams_distinct [of E p]]
    by blast
  show "requested_URLs (snd (ListInvoices E c p)) =
     (case http_request_error E ''GET'' (baseURL c @ path_with_query (params_by_key E p)) of
        None \<Rightarrow> [baseURL c @ path_with_query (params_by_key E p)] | Some e \<Rightarrow> [])"
    by (rule ListInvoices_requested_URLs [of E c p, unfolded ListInvoices_path_by_key])
qed

theorem ListInvoices_path_params_in_key_order_witness:
  "ListInvoices_path (example_env 200 ''{}'')
     (ListInvoicesParams_zero\<lparr>Page := 1, ListInvoicesParams.Status := ''new'',
        CreatedAfter := example_time\<rparr>) =
   ''/invoices?created_after=2024-01-01T00%3A00%3A00Z&page=1&status=new'' \<and>
   Values_Encode [(''status'', [''new'']), (''page'', [''1'']),
       (''created_after'', [''2024-01-01T00:00:00Z''])] =
     Values_Encode (ListInvoices_queryParams (example_env 200 ''{}'')
       (ListInvoicesParams_zero\<lparr>Page := 1, ListInvoicesParams.Status := ''new'',
          CreatedAfter := example_time\<rparr>)) \<and>
   requested_URLs (snd (ListInvoices (example_env 200 ''{}'') example_client
       (ListInvoicesParams_zero\<lparr>Page := 1, ListInvoicesParams.Status := ''new'',
          CreatedAfter := example_time\<rparr>))) =
     [''https://api.itispay.com/api/v1/invoices?created_after=2024-01-01T00%3A00%3A00Z&page=1&status=new'']"
proof -
  let ?E = "example_env 200 ''{}''"
  let ?p = "ListInvoicesParams_zero\<lparr>Page := 1, ListInvoicesParams.Status := ''new'',
        CreatedAfter := example_time\<rparr>"
  note inst = ListInvoices_path_params_in_key_order [of ?E ?p example_client]
  have items: "params_by_key ?E ?p =
      [(''created_after'', ''2024-01-01T00:00:00Z''), (''page'', ''1''), (''status'', ''new'')]"
    by (simp add: params_by_key_def param_int_def param_string_def param_time_def
        ListInvoicesParams_zero_def Time_IsZero_def Time_zero_def example_time_def
        example_env_def example_Time_Format_def fmt_d_small)
  have q: "ListInvoices_queryParams ?E ?p =
      [(''page'', [''1'']), (''status'', [''new'']),
       (''created_after'', [''2024-01-01T00:00:00Z''])]"
    by (simp add: ListInvoices_queryParams_by_precedence spec_params_by_precedence_def
        param_int_def param_string_def param_time_def
        ListInvoicesParams_zero_def Time_IsZero_def Time_zero_def example_time_def
        example_env_def example_Time_Format_def fmt_d_small)
  have pq: "path_with_query (params_by_key ?E ?p) =
      ''/invoices?created_after=2024-01-01T00%3A00%3A00Z&page=1&status=new''"
    unfolding items
    by (simp add: path_with_query_def query_of_def QueryEscape_examples)
  have 1: "ListInvoices_path ?E ?p =
      ''/invoices?created_after=2024-01-01T00%3A00%3A00Z&page=1&status=new''"
    using inst [THEN conjunct1] unfolding pq .
  have 2: "Values_Encode [(''status'', [''new'']), (''page'', [''1'']),
       (''created_after'', [''2024-01-01T00:00:00Z''])] =
     Values_Encode (ListInvoices_queryParams ?E ?p)"
  proof -
    have "set [(''status'', [''new'']), (''page'', [''1'']),
            (''created_after'', [''2024-01-01T00:00:00Z''])] =
          set (ListInvoices_queryParams ?E ?p) \<and>
          distinct (map fst [(''status'', [''new'']), (''page'', [''1'']),
            (''created_after'', [''2024-01-01T00:00:00Z''])])"
      unfolding q by auto
    with inst [THEN conjunct2, THEN conjunct1] show ?thesis by blast
  qed
  have ok: "http_request_error ?E ''GET''
      (baseURL example_client @
       ''/invoices?created_after=2024-01-01T00%3A00%3A00Z&page=1&status=new'') = None"
    by (simp add: example_env_def)
  have base: "baseURL example_client = ''https://api.itispay.com/api/v1''"
    by (simp add: example_client_def NewClient_def DefaultBaseURL_def)
  have 3: "requested_URLs (snd (ListInvoices ?E example_client ?p)) =
     [''https://api.itispay.com/api/v1/invoices?created_after=2024-01-01T00%3A00%3A00Z&page=1&status=new'']"
    using inst [THEN conjunct2, THEN conjunct2] unfolding pq ok
    by (simp add: base)
  from 1 2 3 show ?thesis by (intro conjI)
qed

theorem ListInvoices_path_not_in_spec_precedence:
  "ListInvoices_path (example_env 200 ''{}'')
     (ListInvoicesParams_zero\<lparr>ListInvoicesParams.Status := ''new'',
        ListInvoicesParams.Currency := ''BTC''\<rparr>) =
     ''/invoices?currency=BTC&status=new'' \<and>
   path_with_query (spec_params_by_precedence (example_env 200 ''{}'')
     (ListInvoicesParams_zero\<lparr>ListInvoicesParams.Status := ''new'',
        ListInvoicesParams.Currency := ''BTC''\<rparr>)) =
     ''/invoices?status=new&currency=BTC'' \<and>
   ListInvoices_path (example_env 200 ''{}'')
     (ListInvoicesParams_zero\<lparr>ListInvoicesParams.Status := ''new'',
        ListInvoicesParams.Currency := ''BTC''\<rparr>) \<noteq>
   path_with_query (spec_params_by_precedence (example_env 200 ''{}'')
     (ListInvoicesParams_zero\<lparr>ListInvoicesParams.Status := ''new'',
        ListInvoicesParams.Currency := ''BTC''\<rparr>)) \<and>
   requested_URLs (snd (ListInvoices (example_env 200 ''{}'') example_client
     (ListInvoicesParams_zero\<lparr>ListInvoicesParams.Status := ''new'',
        ListInvoicesParams.Currency := ''BTC''\<rparr>))) =
     [''https://api.itispay.com/api/v1/invoices?currency=BTC&status=new''] \<and>
   requested_URLs (snd (ListInvoices (example_env 200 ''{}'') example_client
     (ListInvoicesParams_zero\<lparr>ListInvoicesParams.Status := ''new'',
        ListInvoicesParams.Currency := ''BTC''\<rparr>))) \<noteq>
     [''https://api.itispay.com/api/v1/invoices?status=new&currency=BTC'']"
proof -
  let ?E = "example_env 200 ''{}''"
  let ?p = "ListInvoicesParams_zero\<lparr>ListInvoicesParams.Status := ''new'',
        ListInvoicesParams.Currency := ''BTC''\<rparr>"
  have by_key: "params_by_key ?E ?p = [(''currency'', ''BTC''), (''status'', ''new'')]"
    by (simp add: params_by_key_def param_int_def param_string_def param_time_def
        ListInvoicesParams_zero_def Time_IsZero_def Time_zero_def)
  have by_prec: "spec_params_by_precedence ?E ?p = [(''status'', ''new''), (''currency'', ''BTC'')]"
    by (simp add: spec_params_by_precedence_def param_int_def param_string_def param_time_def
        ListInvoicesParams_zero_def Time_IsZero_def Time_zero_def)
  have 1: "ListInvoices_path ?E ?p = ''/invoices?currency=BTC&status=new''"
    unfolding ListInvoices_path_by_key by_key
    by (simp add: path_with_query_def query_of_def QueryEscape_examples)
  have 2: "path_with_query (spec_params_by_precedence ?E ?p) =
      ''/invoices?status=new&currency=BTC''"
    unfolding by_prec
    by (simp add: path_with_query_def query_of_def QueryEscape_examples)
  have 3: "requested_URLs (snd (ListInvoices ?E example_client ?p)) =
     [''https://api.itispay.com/api/v1/invoices?currency=BTC&status=new'']"
    unfolding example_ListInvoices_requested_URLs 1 by simp
  show ?thesis
    unfolding 1 2 3 by simp
qed

text \<open>
  Claim C5.  For the all-default parameters \<open>ListInvoices\<close> requests exactly the path
  \<open>/invoices\<close> behind the base URL, without \<open>?\<close> and without any invented default such as
  \<open>page=1\<close>; for page 2 and page size 10 it requests exactly
  \<open>/invoices?page=2&page_size=10\<close>.  For every value of the parameters the one request
  (none when the library rejects the URL) has the path made of the parameters that are not
  default and of no others.  The path is \<open>/invoices\<close> if and only if every parameter is
  default, and a key is among the query values exactly when its parameter is not default:
  page and page_size above zero, the strings non-empty, the timestamps not the zero time.
  No other key is ever sent.
\<close>

theorem ListInvoices_path_only_non_default_params:
  "requested_URLs (snd (ListInvoices E c ListInvoicesParams_zero)) =
     (case http_request_error E ''GET'' (baseURL c @ ''/invoices'') of
        None \<Rightarrow> [baseURL c @ ''/invoices''] | Some e \<Rightarrow> []) \<and>
   requested_URLs (snd (ListInvoices E c
       (ListInvoicesParams_zero\<lparr>Page := 2, ListInvoicesParams.PageSize := 10\<rparr>))) =
     (case http_request_error E ''GET'' (baseURL c @ ''/invoices?page=2&page_size=10'') of
        None \<Rightarrow> [baseURL c @ ''/invoices?page=2&page_size=10''] | Some e \<Rightarrow> []) \<and>
   requested_URLs (snd (ListInvoices E c p)) =
     (case http_request_error E ''GET'' (baseURL c @ ListInvoices_path E p) of
        None \<Rightarrow> [baseURL c @ ListInvoices_path E p] | Some e \<Rightarrow> []) \<and>
   ListInvoices_path E p =
     path_with_query
       (param_time E ''created_after'' (CreatedAfter p) @
        param_time E ''created_before'' (CreatedBefore p) @
        param_string ''currency'' (ListInvoicesParams.Currency p) @
        param_int ''page'' (Page p) @
        param_int ''page_size'' (ListInvoicesParams.PageSize p) @
        param_string ''sort_by'' (SortBy p) @
        param_string ''sort_order'' (SortOrder p) @
        param_string ''status'' (ListInvoicesParams.Status p)) \<and>
   ListInvoices_path E ListInvoicesParams_zero = ''/invoices'' \<and>
   ListInvoices_path E (ListInvoicesParams_zero\<lparr>Page := 2, ListInvoicesParams.PageSize := 10\<rparr>) =
     ''/invoices?page=2&page_size=10'' \<and>
   (ListInvoices_path E p = ''/invoices'') =
     (\<not> Page p > 0 \<and> \<not> ListInvoicesParams.PageSize p > 0 \<and>
      ListInvoicesParams.Status p = '''' \<and> ListInvoicesParams.Currency p = '''' \<and>
      Time_IsZero (CreatedAfter p) \<and> Time_IsZero (CreatedBefore p) \<and>
      SortBy p = '''' \<and> SortOrder p = '''') \<and>
   (''page'' \<in> fst ` set (ListInvoices_queryParams E p)) = (Page p > 0) \<and>
   (''page_size'' \<in> fst ` set (ListInvoices_queryParams E p)) =
     (ListInvoicesParams.PageSize p > 0) \<and>
   (''status'' \<in> fst ` set (ListInvoices_queryParams E p)) =
     (ListInvoicesParams.Status p \<noteq> '''') \<and>
   (''currency'' \<in> fst ` set (ListInvoices_queryParams E p)) =
     (ListInvoicesParams.Currency p \<noteq> '''') \<and>
   (''created_after'' \<in> fst ` set (ListInvoices_queryParams E p)) =
     (\<not> Time_IsZero (CreatedAfter p)) \<and>
   (''created_before'' \<in> fst ` set (ListInvoices_queryParams E p)) =
     (\<not> Time_IsZero (CreatedBefore p)) \<and>
   (''sort_by'' \<in> fst ` set (ListInvoices_queryParams E p)) = (SortBy p \<noteq> '''') \<and>
   (''sort_order'' \<in> fst ` set (ListInvoices_queryParams E p)) = (SortOrder p \<noteq> '''') \<and>
   fst ` set (ListInvoices_queryParams E p) \<subseteq>
     {''page'', ''page_size'', ''status'', ''currency'', ''created_after'', ''created_before'',
      ''sort_by'', ''sort_order''}"
proof -
  note keys = keys_ListInvoices_queryParams spec_params_by_precedence_def image_Un
    key_param_int key_param_string key_param_time
  have a: "ListInvoices_path E ListInvoicesParams_zero = ''/invoices''"
    by (simp add: ListInvoices_path_by_key path_with_query_def params_by_key_def
        param_int_def param_string_def param_time_def ListInvoicesParams_zero_def
        Time_IsZero_def Time_zero_def)
  have items: "params_by_key E
      (ListInvoicesParams_zero\<lparr>Page := 2, ListInvoicesParams.PageSize := 10\<rparr>) =
      [(''page'', ''2''), (''page_size'', ''10'')]"
    by (simp add: params_by_key_def param_int_def param_string_def param_time_def
        ListInvoicesParams_zero_def Time_IsZero_def Time_zero_def fmt_d_small)
  have b: "ListInvoices_path E
      (ListInvoicesParams_zero\<lparr>Page := 2, ListInvoicesParams.PageSize := 10\<rparr>) =
      ''/invoices?page=2&page_size=10''"
    unfolding ListInvoices_path_by_key items
    by (simp add: path_with_query_def query_of_def QueryEscape_examples)
  have r0: "requested_URLs (snd (ListInvoices E c ListInvoicesParams_zero)) =
     (case http_request_error E ''GET'' (baseURL c @ ''/invoices'') of
        None \<Rightarrow> [baseURL c @ ''/invoices''] | Some e \<Rightarrow> [])"
    by (rule ListInvoices_requested_URLs [of E c ListInvoicesParams_zero, unfolded a])
  have r1: "requested_URLs (snd (ListInvoices E c
       (ListInvoicesParams_zero\<lparr>Page := 2, ListInvoicesParams.PageSize := 10\<rparr>))) =
     (case http_request_error E ''GET'' (baseURL c @ ''/invoices?page=2&page_size=10'') of
        None \<Rightarrow> [baseURL c @ ''/invoices?page=2&page_size=10''] | Some e \<Rightarrow> [])"
    by (rule ListInvoices_requested_URLs [of E c
          "ListInvoicesParams_zero\<lparr>Page := 2, ListInvoicesParams.PageSize := 10\<rparr>",
          unfolded b])
  have r2: "requested_URLs (snd (ListInvoices E c p)) =
     (case http_request_error E ''GET'' (baseURL c @ ListInvoices_path E p) of
        None \<Rightarrow> [baseURL c @ ListInvoices_path E p] | Some e \<Rightarrow> [])"
    by (rule ListInvoices_requested_URLs)
  have pth: "ListInvoices_path E p =
     path_with_query
       (param_time E ''created_after'' (CreatedAfter p) @
        param_time E ''created_before'' (CreatedBefore p) @
        param_string ''currency'' (ListInvoicesParams.Currency p) @
        param_int ''page'' (Page p) @
        param_int ''page_size'' (ListInvoicesParams.PageSize p) @
        param_string ''sort_by'' (SortBy p) @
        param_string ''sort_order'' (SortOrder p) @
        param_string ''status'' (ListInvoicesParams.Status p))"
    by (rule ListInvoices_path_by_key [of E p, unfolded params_by_key_def])
  have c: "(ListInvoices_path E p = ''/invoices'') =
     (\<not> Page p > 0 \<and> \<not> ListInvoicesParams.PageSize p > 0 \<and>
      ListInvoicesParams.Status p = '''' \<and> ListInvoicesParams.Currency p = '''' \<and>
      Time_IsZero (CreatedAfter p) \<and> Time_IsZero (CreatedBefore p) \<and>
      SortBy p = '''' \<and> SortOrder p = '''')"
    unfolding ListInvoices_path_by_key path_with_query_bare params_by_key_def
    by (auto simp: param_int_def param_string_def param_time_def)
  have k: "(''page'' \<in> fst ` set (ListInvoices_queryParams E p)) = (Page p > 0)"
    "(''page_size'' \<in> fst ` set (ListInvoices_queryParams E p)) =
       (ListInvoicesParams.PageSize p > 0)"
    "(''status'' \<in> fst ` set (ListInvoices_queryParams E p)) =
       (ListInvoicesParams.Status p \<noteq> '''')"
    "(''currency'' \<in> fst ` set (ListInvoices_queryParams E p)) =
       (ListInvoicesParams.Currency p \<noteq> '''')"
    "(''created_after'' \<in> fst ` set (ListInvoices_queryParams E p)) =
       (\<not> Time_IsZero (CreatedAfter p))"
    "(''created_before'' \<in> fst ` set (ListInvoices_queryParams E p)) =
       (\<not> Time_IsZero (CreatedBefore p))"
    "(''sort_by'' \<in> fst ` set (ListInvoices_queryParams E p)) = (SortBy p \<noteq> '''')"
    "(''sort_order'' \<in> fst ` set (ListInvoices_queryParams E p)) = (SortOrder p \<noteq> '''')"
    by (simp_all add: keys)
  have s: "fst ` set (ListInvoices_queryParams E p) \<subseteq>
     {''page'', ''page_size'', ''status'', ''currency'', ''created_after'', ''created_before'',
      ''sort_by'', ''sort_order''}"
  proof
    fix x
    assume "x \<in> fst ` set (ListInvoices_queryParams E p)"
    then show "x \<in> {''page'', ''page_size'', ''status'', ''currency'', ''created_after'',
        ''created_before'', ''sort_by'', ''sort_order''}"
      by (auto simp: keys_ListInvoices_queryParams spec_params_by_precedence_def
          dest!: param_keys)
  qed
  show ?thesis
    by (intro conjI r0 r1 r2 pth a b c k s)
qed

theorem ListInvoices_path_only_non_default_params_witness:
  "requested_URLs (snd (ListInvoices (example_env 200 ''{}'') example_client
       ListInvoicesParams_zero)) =
     [''https://api.itispay.com/api/v1/invoices''] \<and>
   requested_URLs (snd (ListInvoices (example_env 200 ''{}'') example_client
       (ListInvoicesParams_zero\<lparr>Page := 2, ListInvoicesParams.PageSize := 10\<rparr>))) =
     [''https://api.itispay.com/api/v1/invoices?page=2&page_size=10''] \<and>
   ListInvoices_path (example_env 200 ''{}'') ListInvoicesParams_zero = ''/invoices'' \<and>
   CHR ''?'' \<notin> set (ListInvoices_path (example_env 200 ''{}'') ListInvoicesParams_zero) \<and>
   ''page'' \<notin> fst ` set (ListInvoices_queryParams (example_env 200 ''{}'')
       ListInvoicesParams_zero) \<and>
   ListInvoices_path (example_env 200 ''{}'')
     (ListInvoicesParams_zero\<lparr>Page := 2, ListInvoicesParams.PageSize := 10\<rparr>) =
     ''/invoices?page=2&page_size=10''"
proof -
  let ?E = "example_env 200 ''{}''"
  note inst = ListInvoices_path_only_non_default_params [of ?E example_client
      ListInvoicesParams_zero]
  have ok: "\<And>u. http_request_error ?E ''GET'' u = None"
    by (simp add: example_env_def)
  have base: "baseURL example_client = ''https://api.itispay.com/api/v1''"
    by (simp add: example_client_def NewClient_def DefaultBaseURL_def)
  have 1: "requested_URLs (snd (ListInvoices ?E example_client ListInvoicesParams_zero)) =
     [''https://api.itispay.com/api/v1/invoices'']"
    using inst [THEN conjunct1] unfolding ok base by simp
  have 2: "requested_URLs (snd (ListInvoices ?E example_client
       (ListInvoicesParams_zero\<lparr>Page := 2, ListInvoicesParams.PageSize := 10\<rparr>))) =
     [''https://api.itispay.com/api/v1/invoices?page=2&page_size=10'']"
    using inst [THEN conjunct2, THEN conjunct1] unfolding ok base by simp
  have z: "Page ListInvoicesParams_zero = 0"
    by (simp add: ListInvoicesParams_zero_def)
  have rest: "ListInvoices_path ?E ListInvoicesParams_zero = ''/invoices'' \<and>
     CHR ''?'' \<notin> set (ListInvoices_path ?E ListInvoicesParams_zero) \<and>
     ''page'' \<notin> fst ` set (ListInvoices_queryParams ?E ListInvoicesParams_zero) \<and>
     ListInvoices_path ?E
       (ListInvoicesParams_zero\<lparr>Page := 2, ListInvoicesParams.PageSize := 10\<rparr>) =
       ''/invoices?page=2&page_size=10''"
    using inst [THEN conjunct2, THEN conjunct2, THEN conjunct2, THEN conjunct2] z
    by simp
  from 1 2 rest show ?thesis by (intro conjI) simp_all
qed

end
